theory Spec2Isabelle
  imports Main "HOL-Library.Multiset"
begin

section \<open>The cross-validation driver of \<^verbatim>\<open>main.py\<close>\<close>

text \<open>
  The driver is one Python function, \<^verbatim>\<open>main\<close>, with two nested functions,
  \<^verbatim>\<open>kFolds\<close> (a generator) and \<^verbatim>\<open>getRmse\<close>. The embedding keeps the three and
  their names. Everything the driver calls and does not define (the \<^verbatim>\<open>random\<close>
  module, the dataset readers, \<^verbatim>\<open>TrainingData\<close>, the prediction algorithms,
  \<^verbatim>\<open>stats.computeStats\<close>, \<^verbatim>\<open>np.mean\<close>, the process clock) is a parameter.
  Process-wide state (the random generator, the clock, the file system) is one
  value of an abstract type \<open>'w\<close> that is passed along explicitly.
\<close>

subsection \<open>Python slices\<close>

text \<open>
  A slice bound of Python: a negative bound counts from the end, and every bound is
  clamped to the length of the list.
\<close>

definition py_bound :: "nat \<Rightarrow> int \<Rightarrow> nat" where
  "py_bound n i = (if i < 0 then nat (int n + i) else min n (nat i))"

text \<open>\<^verbatim>\<open>seq[:stop]\<close>, \<^verbatim>\<open>seq[start:]\<close> and \<^verbatim>\<open>seq[start:stop]\<close>.\<close>

definition slice_to :: "'a list \<Rightarrow> int \<Rightarrow> 'a list" where
  "slice_to xs j = take (py_bound (length xs) j) xs"

definition slice_from :: "'a list \<Rightarrow> int \<Rightarrow> 'a list" where
  "slice_from xs i = drop (py_bound (length xs) i) xs"

definition slice :: "'a list \<Rightarrow> int \<Rightarrow> int \<Rightarrow> 'a list" where
  "slice xs i j =
     take (py_bound (length xs) j - py_bound (length xs) i) (drop (py_bound (length xs) i) xs)"

subsection \<open>The generator \<^verbatim>\<open>kFolds\<close>\<close>

text \<open>
  \<^verbatim>\<open>
  def kFolds(seq, k):
      rd.shuffle(seq)
      start, stop = 0, 0
      for fold in range(k):
          start = stop
          stop += len(seq) // k
          if fold < len(seq) % k:
              stop += 1
          yield seq[:start] + seq[stop:], seq[start:stop]
  \<close>
  A generator object is its frame: \<open>Created k\<close> before the first \<^verbatim>\<open>next\<close> (no line
  of the body has run), \<open>Suspended k fold start stop\<close> at the \<^verbatim>\<open>yield\<close>, and
  \<open>Exhausted\<close> after the loop has ended. The list \<^verbatim>\<open>seq\<close> is the caller's own
  list object: \<^verbatim>\<open>rd.shuffle\<close> permutes it in place, so \<open>kFolds_next\<close> takes the
  current content of that object and returns its new content.
\<close>

type_synonym 'a fold = "'a list \<times> 'a list"

datatype kFolds_gen = Created int | Suspended int int int int | Exhausted

definition kFolds :: "int \<Rightarrow> kFolds_gen" where
  "kFolds k = Created k"

text \<open>
  One turn of the \<^verbatim>\<open>for\<close> loop, entered with the next value \<open>fold_no\<close> (the loop
  variable \<^verbatim>\<open>fold\<close>) that
  \<^verbatim>\<open>range(k)\<close> would produce and the current \<open>stop\<close>. Python's \<^verbatim>\<open>//\<close> and
  \<^verbatim>\<open>%\<close> on integers are \<open>div\<close> and \<open>mod\<close> on \<open>int\<close>.
\<close>

definition kFolds_turn :: "int \<Rightarrow> int \<Rightarrow> int \<Rightarrow> 'a list \<Rightarrow> 'a fold option \<times> kFolds_gen" where
  "kFolds_turn k fold_no stop0 seq =
     (if fold_no < k then
        let start = stop0;
            stop1 = stop0 + int (length seq) div k;
            stop = (if fold_no < int (length seq) mod k then stop1 + 1 else stop1)
        in (Some (slice_to seq start @ slice_from seq stop, slice seq start stop),
            Suspended k fold_no start stop)
      else (None, Exhausted))"

fun kFolds_next ::
  "('a list \<Rightarrow> 'w \<Rightarrow> 'a list \<times> 'w) \<Rightarrow> kFolds_gen \<Rightarrow> 'a list \<Rightarrow> 'w
     \<Rightarrow> 'a fold option \<times> kFolds_gen \<times> 'a list \<times> 'w" where
  "kFolds_next shuffle (Created k) seq w =
     (let (seq', w') = shuffle seq w;
          (y, g) = kFolds_turn k 0 0 seq'
      in (y, g, seq', w'))"
| "kFolds_next shuffle (Suspended k fold_no start stop) seq w =
     (let (y, g) = kFolds_turn k (fold_no + 1) stop seq in (y, g, seq, w))"
| "kFolds_next shuffle Exhausted seq w = (None, Exhausted, seq, w)"

text \<open>The number of \<^verbatim>\<open>next\<close> calls a generator can still answer with a fold, plus one.\<close>

fun kFolds_fuel :: "kFolds_gen \<Rightarrow> nat" where
  "kFolds_fuel (Created k) = nat k + 2"
| "kFolds_fuel (Suspended k fold_no start stop) = nat (k - fold_no) + 1"
| "kFolds_fuel Exhausted = 0"

text \<open>\<^verbatim>\<open>list(gen)\<close>: every fold the generator yields until it is exhausted, in order.\<close>

function kFolds_list ::
  "('a list \<Rightarrow> 'w \<Rightarrow> 'a list \<times> 'w) \<Rightarrow> kFolds_gen \<Rightarrow> 'a list \<Rightarrow> 'w \<Rightarrow> 'a fold list" where
  "kFolds_list shuffle g seq w =
     (case kFolds_next shuffle g seq w of
        (None, g', seq', w') \<Rightarrow> []
      | (Some f, g', seq', w') \<Rightarrow> f # kFolds_list shuffle g' seq' w')"
  by pat_completeness auto
termination
proof (relation "measure (\<lambda>(shuffle, g, seq, w). kFolds_fuel g)")
  fix shuffle :: "'a list \<Rightarrow> 'w \<Rightarrow> 'a list \<times> 'w"
  fix g seq w x1 x2 g' x2a seq' w' f
  assume "(x1, x2) = kFolds_next shuffle g seq w" "(g', x2a) = x2" "(seq', w') = x2a"
    "x1 = Some f"
  then have "kFolds_next shuffle g seq w = (Some f, g', seq', w')"
    by simp
  then have "kFolds_fuel g' < kFolds_fuel g"
    by (cases g) (auto simp: kFolds_turn_def Let_def split: prod.splits if_splits)
  then show "((shuffle, g', seq', w'), (shuffle, g, seq, w))
      \<in> measure (\<lambda>(shuffle, g, seq, w). kFolds_fuel g)"
    by simp
qed simp

declare kFolds_list.simps [simp del]

subsection \<open>Exceptions and process-wide state\<close>

text \<open>
  \<open>SystemExit n\<close> is what \<^verbatim>\<open>argparse\<close> raises after it has printed its usage message
  (\<open>n = 2\<close>); \<open>Raised msg\<close> is any exception of a called function. A computation that
  can raise and that reads or writes process-wide state is a function from the state to
  a result and the new state; the state as it was when the exception was raised is kept.
  Output to the terminal (\<^verbatim>\<open>print\<close>) is not part of the state.
\<close>

datatype error = SystemExit int | Raised string

type_synonym ('a, 's) action = "'s \<Rightarrow> (error + 'a) \<times> 's"

definition ok :: "'a \<Rightarrow> ('a, 's) action" where
  "ok x s = (Inr x, s)"

definition lift_result :: "error + 'a \<Rightarrow> ('a, 's) action" where
  "lift_result r s = (r, s)"

definition then_do :: "('a, 's) action \<Rightarrow> ('a \<Rightarrow> ('b, 's) action) \<Rightarrow> ('b, 's) action" where
  "then_do m f s = (case m s of (Inl e, s') \<Rightarrow> (Inl e, s') | (Inr x, s') \<Rightarrow> f x s')"

text \<open>
  The process-wide state has two parts: the state of the generator of the \<^verbatim>\<open>random\<close>
  module, and everything else (the clock, the file system).
\<close>

record ('g, 'e) world =
  rng :: 'g
  env :: 'e

definition on_env :: "('a, 'e) action \<Rightarrow> ('a, ('g, 'e) world) action" where
  "on_env m w = (case m (env w) of (r, e') \<Rightarrow> (r, w\<lparr>env := e'\<rparr>))"

subsection \<open>What \<^verbatim>\<open>main.py\<close> imports\<close>

text \<open>
  A rating as a reader exposes it: \<^verbatim>\<open>(user, item, rating, timestamp)\<close>, with the raw
  identifiers of the dataset. A \<^verbatim>\<open>TrainingData\<close> has the two dictionaries that
  \<^verbatim>\<open>getRmse\<close> reads, from raw to inner identifiers, and whatever else its class
  keeps. An algorithm object has the dictionary \<^verbatim>\<open>infos\<close> and the list \<^verbatim>\<open>preds\<close>,
  and whatever else its class keeps.
\<close>

type_synonym ('u, 'i, 'f, 't) rating = "'u \<times> 'i \<times> 'f \<times> 't"

record ('u, 'i, 'd) trainingData =
  rawToInnerIdUsers :: "'u \<rightharpoonup> nat"
  rawToInnerIdItems :: "'i \<rightharpoonup> nat"
  td_rest :: 'd

record ('f, 'p, 'c) algo =
  infos :: "string \<rightharpoonup> 'f"
  preds :: "'p list"
  algo_rest :: 'c

text \<open>
  The imported functions. \<open>'raw\<close> is a raw rating as \<^verbatim>\<open>getRawRatings\<close> returns it,
  \<open>'rd\<close> a reader object, \<open>'f\<close> a Python float.
  \<^item> \<open>random_seed_int\<close>, \<open>random_seed_os\<close>: \<^verbatim>\<open>rd.seed(a)\<close> for an integer \<open>a\<close>, and for
    \<^verbatim>\<open>None\<close> (seeded from the system time);
  \<^item> \<open>rd_shuffle\<close>: \<^verbatim>\<open>rd.shuffle\<close>, returning the new content of the list;
  \<^item> \<open>os_path_exists\<close>, \<open>os_makedirs\<close>, \<open>process_time\<close>: \<^verbatim>\<open>os.path.exists\<close>,
    \<^verbatim>\<open>os.makedirs\<close>, \<^verbatim>\<open>time.process_time\<close>;
  \<^item> \<open>getRawRatings\<close>: returns the raw ratings and the reader class, a function that
    makes a reader from raw ratings; \<open>reader_ratings\<close> is the attribute \<^verbatim>\<open>.ratings\<close>;
  \<^item> \<open>TrainingData\<close>: the constructor, a function of the reader it is given;
  \<^item> \<open>algo_new\<close>: \<^verbatim>\<open>algoChoices[name](trainingData, itemBased=, method=, sim=, k=)\<close>;
  \<^item> \<open>predict\<close>: \<^verbatim>\<open>algo.predict(u, i, r, verbose)\<close>, returning the object as the call
    leaves it; \<open>dumpInfos\<close>: \<^verbatim>\<open>algo.dumpInfos()\<close>;
  \<^item> \<open>computeStats\<close>: \<^verbatim>\<open>stats.computeStats\<close>; \<open>np_mean\<close>: \<^verbatim>\<open>np.mean\<close>.
\<close>

record ('g, 'e, 'raw, 'rd, 'u, 'i, 'f, 't, 'd, 'p, 'c) externals =
  random_seed_int :: "int \<Rightarrow> 'g"
  random_seed_os :: "'e \<Rightarrow> 'g"
  rd_shuffle :: "'raw list \<Rightarrow> 'g \<Rightarrow> 'raw list \<times> 'g"
  os_path_exists :: "string \<Rightarrow> 'e \<Rightarrow> bool"
  os_makedirs :: "string \<Rightarrow> (unit, 'e) action"
  process_time :: "'e \<Rightarrow> 'f \<times> 'e"
  getRawRatings :: "string \<Rightarrow> string option \<Rightarrow> ('raw list \<times> ('raw list \<Rightarrow> 'rd), 'e) action"
  reader_ratings :: "'rd \<Rightarrow> ('u, 'i, 'f, 't) rating list"
  TrainingData :: "'rd \<Rightarrow> error + ('u, 'i, 'd) trainingData"
  algo_new :: "string \<Rightarrow> ('u, 'i, 'd) trainingData \<Rightarrow> bool \<Rightarrow> string \<Rightarrow> string \<Rightarrow> int
                 \<Rightarrow> (('f, 'p, 'c) algo, ('g, 'e) world) action"
  predict :: "('f, 'p, 'c) algo \<Rightarrow> nat \<Rightarrow> nat \<Rightarrow> 'f \<Rightarrow> bool
                 \<Rightarrow> (('f, 'p, 'c) algo, ('g, 'e) world) action"
  dumpInfos :: "('f, 'p, 'c) algo \<Rightarrow> (unit, 'e) action"
  computeStats :: "'p list \<Rightarrow> error + 'f"
  np_mean :: "'f list \<Rightarrow> 'f"

text \<open>\<^verbatim>\<open>rd.seed(args.seed)\<close>: the generator's old state is discarded.\<close>

definition rd_seed ::
  "('g, 'e, 'raw, 'rd, 'u, 'i, 'f, 't, 'd, 'p, 'c) externals \<Rightarrow> int option
     \<Rightarrow> ('g, 'e) world \<Rightarrow> ('g, 'e) world" where
  "rd_seed ext a w =
     (case a of None \<Rightarrow> w\<lparr>rng := random_seed_os ext (env w)\<rparr>
              | Some n \<Rightarrow> w\<lparr>rng := random_seed_int ext n\<rparr>)"

subsection \<open>The command line\<close>

text \<open>
  The options of the command line as \<^verbatim>\<open>argparse\<close> sees them, each value already
  converted by the option's \<^verbatim>\<open>type=\<close> (\<^verbatim>\<open>str\<close> or \<^verbatim>\<open>int\<close>); \<open>None\<close> is an option
  that was not given. \<open>args\<close> is the namespace that \<^verbatim>\<open>parse_args\<close> returns.
\<close>

record cmdline =
  opt_algo :: "string option"
  opt_sim :: "string option"
  opt_method :: "string option"
  opt_k :: "int option"
  opt_trainFile :: "string option"
  opt_testFile :: "string option"
  opt_dataset :: "string option"
  opt_cv :: "int option"
  opt_seed :: "int option"
  opt_itemBased :: bool
  opt_withDump :: bool
  opt_indivOutput :: bool

record args =
  args_algo :: string
  args_sim :: string
  args_method :: string
  args_k :: int
  args_trainFile :: "string option"
  args_testFile :: "string option"
  args_dataset :: string
  args_cv :: int
  args_seed :: "int option"
  args_itemBased :: bool
  args_withDump :: bool
  args_indivOutput :: bool

definition algoChoices :: "string list" where
  "algoChoices = [''Random'', ''BaselineOnly'', ''KNNBasic'', ''KNNBaseline'', ''KNNWithMeans'',
     ''Parall'', ''Pattern'', ''CloneBruteforce'', ''CloneMeanDiff'', ''CloneKNNMeanDiff'']"

definition simChoices :: "string list" where
  "simChoices = [''cos'', ''pearson'', ''MSD'', ''MSDClone'']"

definition methodChoices :: "string list" where
  "methodChoices = [''als'', ''sgd'']"

definition datasetChoices :: "string list" where
  "datasetChoices = [''ml-100k'', ''ml-1m'', ''BX'', ''jester'']"

text \<open>
  An option with \<^verbatim>\<open>choices=\<close>: a value that is given must be one of the choices, or
  \<^verbatim>\<open>argparse\<close> prints the usage and exits with status 2. An option with
  \<^verbatim>\<open>type=int\<close> and no \<^verbatim>\<open>choices=\<close> takes any integer.
\<close>

definition with_choices :: "string list \<Rightarrow> string \<Rightarrow> string option \<Rightarrow> error + string" where
  "with_choices choices dflt v =
     (case v of None \<Rightarrow> Inr dflt
      | Some x \<Rightarrow> if x \<in> set choices then Inr x else Inl (SystemExit 2))"

definition with_default :: "'a \<Rightarrow> 'a option \<Rightarrow> 'a" where
  "with_default dflt v = (case v of None \<Rightarrow> dflt | Some x \<Rightarrow> x)"

definition parse_args :: "cmdline \<Rightarrow> error + args" where
  "parse_args cl =
     (case with_choices algoChoices ''KNNBaseline'' (opt_algo cl) of
        Inl e \<Rightarrow> Inl e
      | Inr a \<Rightarrow>
     (case with_choices simChoices ''MSD'' (opt_sim cl) of
        Inl e \<Rightarrow> Inl e
      | Inr s \<Rightarrow>
     (case with_choices methodChoices ''als'' (opt_method cl) of
        Inl e \<Rightarrow> Inl e
      | Inr m \<Rightarrow>
     (case with_choices datasetChoices ''ml-100k'' (opt_dataset cl) of
        Inl e \<Rightarrow> Inl e
      | Inr d \<Rightarrow>
          Inr \<lparr>args_algo = a, args_sim = s, args_method = m,
               args_k = with_default 40 (opt_k cl),
               args_trainFile = opt_trainFile cl, args_testFile = opt_testFile cl,
               args_dataset = d,
               args_cv = with_default 5 (opt_cv cl),
               args_seed = opt_seed cl,
               args_itemBased = opt_itemBased cl, args_withDump = opt_withDump cl,
               args_indivOutput = opt_indivOutput cl\<rparr>))))"

text \<open>The truth value of an optional string in a condition: \<^verbatim>\<open>None\<close> and \<^verbatim>\<open>''\<close> are false.\<close>

definition truthy :: "string option \<Rightarrow> bool" where
  "truthy v = (case v of None \<Rightarrow> False | Some x \<Rightarrow> x \<noteq> [])"

subsection \<open>\<^verbatim>\<open>getRmse\<close>\<close>

text \<open>
  \<^verbatim>\<open>
  def getRmse(trainRawRatings, testRawRatings):
      readerTrain = ReaderClass(trainRawRatings)
      readerTest = ReaderClass(testRawRatings)
      trainingData = TrainingData(readerTrain)
      trainStartTime = time.process_time()
      trainingTime = time.process_time() - trainStartTime
      algo = algoChoices[args.algo](trainingData, itemBased=args.itemBased,
                                    method=args.method, sim=args.sim, k=args.k)
      testTimeStart = time.process_time()
      for u0, i0, r0, _ in readerTest.ratings:
          try:
              u0 = trainingData.rawToInnerIdUsers[u0]
              i0 = trainingData.rawToInnerIdItems[i0]
          except KeyError:
              continue
          algo.predict(u0, i0, r0, args.indivOutput)
      testingTime = time.process_time() - testTimeStart
      algo.infos['trainingTime'] = trainingTime
      algo.infos['testingTime'] = testingTime
      algo.dumpInfos()
      return stats.computeStats(algo.preds)
  \<close>
  (the \<^verbatim>\<open>print\<close> calls left out). The function is embedded in three parts:
  \<open>getRmse_fit\<close> up to the construction of the algorithm, \<open>getRmse_test\<close> from
  there to the two assignments to \<^verbatim>\<open>algo.infos\<close>, and \<open>getRmse\<close>, which runs both and
  ends with \<^verbatim>\<open>dumpInfos\<close> and \<^verbatim>\<open>computeStats\<close>.
\<close>

definition clock ::
  "('g, 'e, 'raw, 'rd, 'u, 'i, 'f, 't, 'd, 'p, 'c) externals \<Rightarrow> ('f, ('g, 'e) world) action" where
  "clock ext = on_env (\<lambda>e. case process_time ext e of (t, e') \<Rightarrow> (Inr t, e'))"

definition getRmse_fit ::
  "('g, 'e, 'raw, 'rd, 'u, 'i, 'f::minus, 't, 'd, 'p, 'c) externals \<Rightarrow> args \<Rightarrow> ('raw list \<Rightarrow> 'rd)
     \<Rightarrow> 'raw list \<Rightarrow> 'raw list
     \<Rightarrow> (('u, 'i, 'd) trainingData \<times> 'rd \<times> 'f \<times> ('f, 'p, 'c) algo, ('g, 'e) world) action" where
  "getRmse_fit ext args ReaderClass trainRawRatings testRawRatings =
     (let readerTrain = ReaderClass trainRawRatings;
          readerTest = ReaderClass testRawRatings
      in then_do (lift_result (TrainingData ext readerTrain)) (\<lambda>trainingData.
         then_do (clock ext) (\<lambda>trainStartTime.
         then_do (clock ext) (\<lambda>t.
           let trainingTime = t - trainStartTime
           in then_do (algo_new ext (args_algo args) trainingData (args_itemBased args)
                         (args_method args) (args_sim args) (args_k args)) (\<lambda>algo.
              ok (trainingData, readerTest, trainingTime, algo))))))"

text \<open>
  The loop over \<^verbatim>\<open>readerTest.ratings\<close>. A \<^verbatim>\<open>KeyError\<close> of one of the two lookups is
  caught and the loop goes on with the next rating; an exception of \<^verbatim>\<open>predict\<close> is
  not caught.
\<close>

fun test_loop ::
  "('g, 'e, 'raw, 'rd, 'u, 'i, 'f, 't, 'd, 'p, 'c) externals \<Rightarrow> args \<Rightarrow> ('u, 'i, 'd) trainingData
     \<Rightarrow> ('u, 'i, 'f, 't) rating list \<Rightarrow> ('f, 'p, 'c) algo
     \<Rightarrow> (('f, 'p, 'c) algo, ('g, 'e) world) action" where
  "test_loop ext args trainingData [] algo w = (Inr algo, w)"
| "test_loop ext args trainingData ((u0, i0, r0, ts) # rest) algo w =
     (case rawToInnerIdUsers trainingData u0 of
        None \<Rightarrow> test_loop ext args trainingData rest algo w
      | Some u \<Rightarrow>
          (case rawToInnerIdItems trainingData i0 of
             None \<Rightarrow> test_loop ext args trainingData rest algo w
           | Some i \<Rightarrow>
               (case predict ext algo u i r0 (args_indivOutput args) w of
                  (Inl e, w') \<Rightarrow> (Inl e, w')
                | (Inr algo', w') \<Rightarrow> test_loop ext args trainingData rest algo' w')))"

definition getRmse_test ::
  "('g, 'e, 'raw, 'rd, 'u, 'i, 'f::minus, 't, 'd, 'p, 'c) externals \<Rightarrow> args
     \<Rightarrow> ('u, 'i, 'd) trainingData \<Rightarrow> 'rd \<Rightarrow> 'f \<Rightarrow> ('f, 'p, 'c) algo
     \<Rightarrow> (('f, 'p, 'c) algo, ('g, 'e) world) action" where
  "getRmse_test ext args trainingData readerTest trainingTime algo =
     then_do (clock ext) (\<lambda>testTimeStart.
     then_do (test_loop ext args trainingData (reader_ratings ext readerTest) algo) (\<lambda>algo'.
     then_do (clock ext) (\<lambda>t.
       let testingTime = t - testTimeStart
       in ok (algo'\<lparr>infos := (infos algo')(''trainingTime'' \<mapsto> trainingTime,
                                            ''testingTime'' \<mapsto> testingTime)\<rparr>))))"

definition getRmse_tested ::
  "('g, 'e, 'raw, 'rd, 'u, 'i, 'f::minus, 't, 'd, 'p, 'c) externals \<Rightarrow> args \<Rightarrow> ('raw list \<Rightarrow> 'rd)
     \<Rightarrow> 'raw list \<Rightarrow> 'raw list \<Rightarrow> (('f, 'p, 'c) algo, ('g, 'e) world) action" where
  "getRmse_tested ext args ReaderClass trainRawRatings testRawRatings =
     then_do (getRmse_fit ext args ReaderClass trainRawRatings testRawRatings)
       (\<lambda>(trainingData, readerTest, trainingTime, algo).
          getRmse_test ext args trainingData readerTest trainingTime algo)"

definition getRmse ::
  "('g, 'e, 'raw, 'rd, 'u, 'i, 'f::minus, 't, 'd, 'p, 'c) externals \<Rightarrow> args \<Rightarrow> ('raw list \<Rightarrow> 'rd)
     \<Rightarrow> 'raw list \<Rightarrow> 'raw list \<Rightarrow> ('f, ('g, 'e) world) action" where
  "getRmse ext args ReaderClass trainRawRatings testRawRatings =
     then_do (getRmse_tested ext args ReaderClass trainRawRatings testRawRatings) (\<lambda>algo.
     then_do (on_env (dumpInfos ext algo)) (\<lambda>_.
     lift_result (computeStats ext (preds algo))))"

subsection \<open>\<^verbatim>\<open>main\<close>\<close>

text \<open>
  \<^verbatim>\<open>
  for foldNumber, (trainSet, testSet) in enumerate(kFolds(rawRatings, args.cv)):
      rmses.append(getRmse(trainSet, testSet))
  \<close>
  Each turn asks the generator for its next fold; \<open>seq\<close> is the content of the list
  \<^verbatim>\<open>rawRatings\<close>, which the generator shares with \<^verbatim>\<open>main\<close>. An exception of
  \<^verbatim>\<open>getRmse\<close> is not caught.
\<close>

function cv_loop ::
  "('g, 'e, 'raw, 'rd, 'u, 'i, 'f::minus, 't, 'd, 'p, 'c) externals \<Rightarrow> args \<Rightarrow> ('raw list \<Rightarrow> 'rd)
     \<Rightarrow> kFolds_gen \<Rightarrow> 'raw list \<Rightarrow> 'f list \<Rightarrow> ('f list, ('g, 'e) world) action" where
  "cv_loop ext args ReaderClass g seq rmses w =
     (case kFolds_next (rd_shuffle ext) g seq (rng w) of
        (None, g', seq', r') \<Rightarrow> (Inr rmses, w\<lparr>rng := r'\<rparr>)
      | (Some (trainSet, testSet), g', seq', r') \<Rightarrow>
          (case getRmse ext args ReaderClass trainSet testSet (w\<lparr>rng := r'\<rparr>) of
             (Inl e, w') \<Rightarrow> (Inl e, w')
           | (Inr x, w') \<Rightarrow> cv_loop ext args ReaderClass g' seq' (rmses @ [x]) w'))"
  by pat_completeness auto
termination
  apply (relation "measure (\<lambda>(ext, args, ReaderClass, g, seq, rmses, w). kFolds_fuel g)")
   apply simp
  apply (case_tac g)
    apply (auto simp: kFolds_turn_def Let_def split: prod.splits if_splits)
  done

declare cv_loop.simps [simp del]

text \<open>
  \<^verbatim>\<open>
  args = parser.parse_args()
  rd.seed(args.seed)
  if not os.path.exists('datasets'):
      os.makedirs('datasets')
  rmses = []
  if args.trainFile and args.testFile:
      trainRawRatings, ReaderClass = getRawRatings(args.dataset, args.trainFile)
      testRawRatings, ReaderClass = getRawRatings(args.dataset, args.testFile)
      rmses.append(getRmse(trainRawRatings, testRawRatings))
  else:
      rawRatings, ReaderClass = getRawRatings(args.dataset)
      for ... in enumerate(kFolds(rawRatings, args.cv)): ...
  print("Mean RMSE: {0:1.4f}".format(np.mean(rmses)))
  \<close>
  \<open>run_files\<close> and \<open>run_cv\<close> are the two branches, each returning the list
  \<^verbatim>\<open>rmses\<close>; \<open>main\<close> returns the mean that the last line prints.
\<close>

definition run_files ::
  "('g, 'e, 'raw, 'rd, 'u, 'i, 'f::minus, 't, 'd, 'p, 'c) externals \<Rightarrow> args
     \<Rightarrow> ('f list, ('g, 'e) world) action" where
  "run_files ext args =
     then_do (on_env (getRawRatings ext (args_dataset args) (args_trainFile args)))
       (\<lambda>(trainRawRatings, ReaderClass0).
     then_do (on_env (getRawRatings ext (args_dataset args) (args_testFile args)))
       (\<lambda>(testRawRatings, ReaderClass).
     then_do (getRmse ext args ReaderClass trainRawRatings testRawRatings) (\<lambda>x.
     ok [x])))"

definition run_cv ::
  "('g, 'e, 'raw, 'rd, 'u, 'i, 'f::minus, 't, 'd, 'p, 'c) externals \<Rightarrow> args
     \<Rightarrow> ('f list, ('g, 'e) world) action" where
  "run_cv ext args =
     then_do (on_env (getRawRatings ext (args_dataset args) None))
       (\<lambda>(rawRatings, ReaderClass).
          cv_loop ext args ReaderClass (kFolds (args_cv args)) rawRatings [])"

definition ensure_datasets ::
  "('g, 'e, 'raw, 'rd, 'u, 'i, 'f, 't, 'd, 'p, 'c) externals \<Rightarrow> (unit, ('g, 'e) world) action" where
  "ensure_datasets ext =
     on_env (\<lambda>e. if \<not> os_path_exists ext ''datasets'' e then os_makedirs ext ''datasets'' e
                 else (Inr (), e))"

definition run ::
  "('g, 'e, 'raw, 'rd, 'u, 'i, 'f::minus, 't, 'd, 'p, 'c) externals \<Rightarrow> args
     \<Rightarrow> ('f, ('g, 'e) world) action" where
  "run ext args w =
     then_do (ensure_datasets ext) (\<lambda>_.
     then_do (if truthy (args_trainFile args) \<and> truthy (args_testFile args)
              then run_files ext args else run_cv ext args) (\<lambda>rmses.
     ok (np_mean ext rmses))) (rd_seed ext (args_seed args) w)"

definition main ::
  "('g, 'e, 'raw, 'rd, 'u, 'i, 'f::minus, 't, 'd, 'p, 'c) externals \<Rightarrow> cmdline
     \<Rightarrow> ('f, ('g, 'e) world) action" where
  "main ext cl w =
     (case parse_args cl of
        Inl e \<Rightarrow> (Inl e, w)
      | Inr args \<Rightarrow> run ext args w)"

subsection \<open>The ranges of the folds in closed form\<close>

text \<open>
  With \<open>n\<close> the length of the list, \<open>fold_start n k j\<close> is the value of \<^verbatim>\<open>start\<close> in
  turn \<open>j\<close> of the loop of \<^verbatim>\<open>kFolds\<close>, and \<open>fold_start n k (j + 1)\<close> the value of
  \<^verbatim>\<open>stop\<close>; \<open>fold_at s k j\<close> is the fold yielded in that turn. \<open>kFolds_start\<close> is
  \<open>fold_start\<close> on natural numbers.
\<close>

definition fold_start :: "int \<Rightarrow> int \<Rightarrow> int \<Rightarrow> int" where
  "fold_start n k j = j * (n div k) + min j (n mod k)"

definition fold_at :: "'a list \<Rightarrow> int \<Rightarrow> int \<Rightarrow> 'a fold" where
  "fold_at s k j =
     (slice_to s (fold_start (int (length s)) k j) @ slice_from s (fold_start (int (length s)) k (j + 1)),
      slice s (fold_start (int (length s)) k j) (fold_start (int (length s)) k (j + 1)))"

definition kFolds_start :: "nat \<Rightarrow> nat \<Rightarrow> nat \<Rightarrow> nat" where
  "kFolds_start n k j = j * (n div k) + min j (n mod k)"


subsection \<open>An instance of the imports\<close>

text \<open>
  Concrete imports, to run the driver on concrete inputs: the generator state is a
  counter, the shuffle reverses the list, a reader keeps the ratings it is given, and
  the algorithm predicts the rating 3 for every pair.
\<close>

definition demo_shuffle :: "'a list \<Rightarrow> nat \<Rightarrow> 'a list \<times> nat" where
  "demo_shuffle xs g = (rev xs, Suc g)"

text \<open>
  Modelled from the spec: the Id Index of \<^verbatim>\<open>TrainingData\<close> (the module
  \<^verbatim>\<open>dataset\<close> is not among the sources). It maps each raw identifier to a dense
  inner identifier, counted from 0 in the order in which the identifiers are first
  seen, and has no entry for an identifier that was not seen; building it from no
  rating fails.
\<close>

fun id_index_from :: "('a \<rightharpoonup> nat) \<Rightarrow> nat \<Rightarrow> 'a list \<Rightarrow> ('a \<rightharpoonup> nat)" where
  "id_index_from m n [] = m"
| "id_index_from m n (x # xs) =
     (case m x of None \<Rightarrow> id_index_from (m(x \<mapsto> n)) (Suc n) xs
      | Some _ \<Rightarrow> id_index_from m n xs)"

definition id_index :: "'a list \<Rightarrow> ('a \<rightharpoonup> nat)" where
  "id_index xs = id_index_from Map.empty 0 xs"

type_synonym demo_rating = "string \<times> string \<times> int \<times> nat"

definition demo_TrainingData :: "demo_rating list \<Rightarrow> error + (string, string, unit) trainingData" where
  "demo_TrainingData rd =
     (if rd = [] then Inl (Raised ''no ratings'')
      else Inr \<lparr>rawToInnerIdUsers = id_index (map (\<lambda>(u, i, r, ts). u) rd),
                rawToInnerIdItems = id_index (map (\<lambda>(u, i, r, ts). i) rd),
                td_rest = ()\<rparr>)"

definition demo_ratings :: "demo_rating list" where
  "demo_ratings =
     [(''u1'', ''i1'', 5, 0), (''u2'', ''i2'', 4, 1), (''u1'', ''i2'', 3, 2), (''u2'', ''i1'', 1, 3)]"

text \<open>Stand-ins for the statistics: the sum of the squared errors, and the integer mean.\<close>

definition demo_computeStats :: "(nat \<times> nat \<times> int \<times> int) list \<Rightarrow> error + int" where
  "demo_computeStats ps =
     (if ps = [] then Inl (Raised ''no predictions'')
      else Inr (sum_list (map (\<lambda>(u, i, r, est). (r - est) * (r - est)) ps)))"

definition demo_mean :: "int list \<Rightarrow> int" where
  "demo_mean xs = (if xs = [] then 0 else sum_list xs div int (length xs))"

definition demo_ext ::
  "(nat, nat, demo_rating, demo_rating list, string, string, int, nat, unit,
    nat \<times> nat \<times> int \<times> int, unit) externals" where
  "demo_ext =
     \<lparr>random_seed_int = (\<lambda>n. nat \<bar>n\<bar>),
      random_seed_os = (\<lambda>e. e),
      rd_shuffle = demo_shuffle,
      os_path_exists = (\<lambda>p e. True),
      os_makedirs = (\<lambda>p e. (Inr (), e)),
      process_time = (\<lambda>e. (int e, Suc e)),
      getRawRatings = (\<lambda>d f e. (Inr (demo_ratings, (\<lambda>raw. raw)), e)),
      reader_ratings = (\<lambda>rd. rd),
      TrainingData = demo_TrainingData,
      algo_new = (\<lambda>name td itemBased method sim k w.
                    (Inr \<lparr>infos = Map.empty, preds = [], algo_rest = ()\<rparr>, w)),
      predict = (\<lambda>al u i r verbose w. (Inr (al\<lparr>preds := preds al @ [(u, i, r, 3)]\<rparr>), w)),
      dumpInfos = (\<lambda>al e. (Inr (), e)),
      computeStats = demo_computeStats,
      np_mean = demo_mean\<rparr>"

definition demo_cmdline :: cmdline where
  "demo_cmdline =
     \<lparr>opt_algo = Some ''BaselineOnly'', opt_sim = None, opt_method = None, opt_k = None,
      opt_trainFile = None, opt_testFile = None, opt_dataset = None, opt_cv = Some 2,
      opt_seed = Some 7, opt_itemBased = False, opt_withDump = False,
      opt_indivOutput = False\<rparr>"

definition demo_args :: args where
  "demo_args =
     \<lparr>args_algo = ''BaselineOnly'', args_sim = ''MSD'', args_method = ''als'', args_k = 40,
      args_trainFile = None, args_testFile = None, args_dataset = ''ml-100k'', args_cv = 2,
      args_seed = Some 7, args_itemBased = False, args_withDump = False,
      args_indivOutput = False\<rparr>"

subsection \<open>The loop of \<^verbatim>\<open>main\<close> over a list of folds\<close>

text \<open>
  The cross-validation as the specification words it: the folds are evaluated one
  after the other, in order, and each contributes one value to \<^verbatim>\<open>rmses\<close>. It is
  compared below with \<open>cv_loop\<close>, which follows the source.
\<close>

fun eval_folds ::
  "('g, 'e, 'raw, 'rd, 'u, 'i, 'f::minus, 't, 'd, 'p, 'c) externals \<Rightarrow> args \<Rightarrow> ('raw list \<Rightarrow> 'rd)
     \<Rightarrow> 'raw fold list \<Rightarrow> 'f list \<Rightarrow> ('f list, ('g, 'e) world) action" where
  "eval_folds ext args ReaderClass [] rmses w = (Inr rmses, w)"
| "eval_folds ext args ReaderClass ((trainSet, testSet) # folds) rmses w =
     (case getRmse ext args ReaderClass trainSet testSet w of
        (Inl e, w') \<Rightarrow> (Inl e, w')
      | (Inr x, w') \<Rightarrow> eval_folds ext args ReaderClass folds (rmses @ [x]) w')"

text \<open>What a test rating asks and is compared with: user, item and actual rating.\<close>

fun query :: "('u, 'i, 'f, 't) rating \<Rightarrow> 'u \<times> 'i \<times> 'f" where
  "query (u, i, r, ts) = (u, i, r)"

text \<open>A command line with a value that is not among the choices of its option.\<close>

definition bad_choice :: "cmdline \<Rightarrow> bool" where
  "bad_choice cl =
     ((case opt_algo cl of None \<Rightarrow> False | Some a \<Rightarrow> a \<notin> set algoChoices) \<or>
      (case opt_sim cl of None \<Rightarrow> False | Some s \<Rightarrow> s \<notin> set simChoices) \<or>
      (case opt_method cl of None \<Rightarrow> False | Some m \<Rightarrow> m \<notin> set methodChoices) \<or>
      (case opt_dataset cl of None \<Rightarrow> False | Some d \<Rightarrow> d \<notin> set datasetChoices))"

text \<open>
  What \<open>getRmse_fit\<close> has built, without the reader of the test ratings that it also
  returns.
\<close>

definition forget_reader ::
  "(error + ('td \<times> 'rd \<times> 'f \<times> 'al)) \<times> 'w \<Rightarrow> (error + ('td \<times> 'f \<times> 'al)) \<times> 'w" where
  "forget_reader r =
     (case r of (Inl e, w) \<Rightarrow> (Inl e, w) | (Inr (td, rd, tt, al), w) \<Rightarrow> (Inr (td, tt, al), w))"

text \<open>
  The training data that the instance builds from the single rating of user \<open>u1\<close> for
  item \<open>i1\<close>, the algorithm object as the instance creates it, and as \<^verbatim>\<open>getRmse\<close>
  leaves it after one prediction.
\<close>

definition demo_td :: "(string, string, unit) trainingData" where
  "demo_td = \<lparr>rawToInnerIdUsers = id_index [''u1''], rawToInnerIdItems = id_index [''i1''],
               td_rest = ()\<rparr>"

definition demo_algo :: "(int, nat \<times> nat \<times> int \<times> int, unit) algo" where
  "demo_algo = \<lparr>infos = Map.empty, preds = [], algo_rest = ()\<rparr>"

definition demo_algo_tested :: "(int, nat \<times> nat \<times> int \<times> int, unit) algo" where
  "demo_algo_tested =
     \<lparr>infos = [''trainingTime'' \<mapsto> 1, ''testingTime'' \<mapsto> 1], preds = [(0, 0, 4, 3)],
      algo_rest = ()\<rparr>"

text \<open>A test rating whose user and item both have an inner identifier.\<close>

definition known :: "('u, 'i, 'd) trainingData \<Rightarrow> ('u, 'i, 'f, 't) rating \<Rightarrow> bool" where
  "known td q =
     (case q of (u, i, r, ts) \<Rightarrow> rawToInnerIdUsers td u \<noteq> None \<and> rawToInnerIdItems td i \<noteq> None)"

text \<open>
  Modelled from the spec: the side effect of \<^verbatim>\<open>predict\<close> (the prediction algorithms
  are not among the sources), which appends one Prediction Record to \<^verbatim>\<open>preds\<close>.
\<close>

definition predict_appends ::
  "('g, 'e, 'raw, 'rd, 'u, 'i, 'f, 't, 'd, 'p, 'c) externals \<Rightarrow> bool" where
  "predict_appends ext =
     (\<forall>al u i r verbose w al' w'.
        predict ext al u i r verbose w = (Inr al', w') \<longrightarrow> (\<exists>p. preds al' = preds al @ [p]))"

section \<open>Properties of \<^verbatim>\<open>kFolds\<close>\<close>

subsection \<open>The folds in closed form\<close>

lemma fold_start_step:
  "fold_start n k j + n div k + (if j < n mod k then 1 else 0) = fold_start n k (j + 1)"
  by (simp add: fold_start_def algebra_simps min_def)

lemma kFolds_turn_closed:
  "kFolds_turn k j (fold_start (int (length s)) k j) s =
     (if j < k then (Some (fold_at s k j),
         Suspended k j (fold_start (int (length s)) k j) (fold_start (int (length s)) k (j + 1)))
      else (None, Exhausted))"
proof (cases "j < int (length s) mod k")
  case True
  with fold_start_step[of "int (length s)" k j] show ?thesis
    by (simp add: kFolds_turn_def fold_at_def Let_def)
next
  case False
  with fold_start_step[of "int (length s)" k j] show ?thesis
    by (simp add: kFolds_turn_def fold_at_def Let_def)
qed

lemma kFolds_list_Suspended:
  "kFolds_list sh (Suspended k j st (fold_start (int (length s)) k (j + 1))) s w =
     map (fold_at s k) [j + 1..k - 1]"
proof (induction "nat (k - j)" arbitrary: j st)
  case 0
  then show ?case
    by (subst kFolds_list.simps) (simp add: kFolds_turn_closed)
next
  case (Suc m)
  show ?case
  proof (cases "j + 1 < k")
    case True
    have "m = nat (k - (j + 1))" using Suc.hyps(2) by simp
    from Suc.hyps(1)[OF this] True show ?thesis
      by (subst kFolds_list.simps) (simp add: kFolds_turn_closed upto_rec1[of "j + 1"])
  next
    case False
    then show ?thesis
      by (subst kFolds_list.simps) (simp add: kFolds_turn_closed)
  qed
qed

lemma kFolds_list_Created:
  "kFolds_list sh (Created k) seq w = map (fold_at (fst (sh seq w)) k) [0..k - 1]"
proof (cases "0 < k")
  case True
  obtain s w' where sw: "sh seq w = (s, w')" by (cases "sh seq w")
  have z: "fold_start (int (length s)) k 0 = 0" using True by (simp add: fold_start_def)
  have "kFolds_turn k 0 0 s = (Some (fold_at s k 0),
         Suspended k 0 0 (fold_start (int (length s)) k (0 + 1)))"
    using kFolds_turn_closed[of k 0 s] True by (simp add: z)
  then show ?thesis using True sw kFolds_list_Suspended[of sh k 0 0 s w']
    by (subst kFolds_list.simps) (simp add: upto_rec1[of 0])
next
  case False
  obtain s w' where sw: "sh seq w = (s, w')" by (cases "sh seq w")
  show ?thesis using False sw
    by (subst kFolds_list.simps) (simp add: kFolds_turn_def)
qed

lemma fold_start_nat:
  "fold_start (int n) (int k) (int j) = int (kFolds_start n k j)"
  by (simp add: fold_start_def kFolds_start_def zdiv_int zmod_int of_nat_min)

lemma kFolds_start_0: "kFolds_start n k 0 = 0"
  by (simp add: kFolds_start_def)

lemma kFolds_start_Suc:
  "kFolds_start n k (Suc j) = kFolds_start n k j + n div k + (if j < n mod k then 1 else 0)"
  by (simp add: kFolds_start_def min_def)

lemma kFolds_start_mono: "i \<le> j \<Longrightarrow> kFolds_start n k i \<le> kFolds_start n k j"
  unfolding kFolds_start_def by (intro add_mono mult_le_mono1 min.mono) simp_all

lemma kFolds_start_k: "0 < k \<Longrightarrow> kFolds_start n k k = n"
  by (simp add: kFolds_start_def)

lemma kFolds_start_le: "0 < k \<Longrightarrow> j \<le> k \<Longrightarrow> kFolds_start n k j \<le> n"
  using kFolds_start_mono[of j k n k] kFolds_start_k[of k n] by simp

lemma py_bound_int: "c \<le> n \<Longrightarrow> py_bound n (int c) = c"
  by (simp add: py_bound_def)

lemma fold_at_nat:
  assumes "0 < k" "j < k"
  shows "fold_at s (int k) (int j) =
     (take (kFolds_start (length s) k j) s @ drop (kFolds_start (length s) k (Suc j)) s,
      take (kFolds_start (length s) k (Suc j) - kFolds_start (length s) k j)
        (drop (kFolds_start (length s) k j) s))"
proof -
  have a: "kFolds_start (length s) k j \<le> length s"
    using assms by (simp add: kFolds_start_le)
  have b: "kFolds_start (length s) k (Suc j) \<le> length s"
    using assms by (simp add: kFolds_start_le)
  have c: "int j + 1 = int (Suc j)" by simp
  show ?thesis
    unfolding fold_at_def c fold_start_nat slice_to_def slice_from_def slice_def
    by (simp add: py_bound_int a b)
qed

lemma map_upto_nat: "map f [0..int k - 1] = map (\<lambda>j. f (int j)) [0..<k]"
  by (rule nth_equalityI) simp_all

lemma kFolds_list_nat:
  assumes "0 < k"
  shows "kFolds_list sh (kFolds (int k)) seq w =
     map (\<lambda>j. (take (kFolds_start (length (fst (sh seq w))) k j) (fst (sh seq w))
                  @ drop (kFolds_start (length (fst (sh seq w))) k (Suc j)) (fst (sh seq w)),
                take (kFolds_start (length (fst (sh seq w))) k (Suc j)
                       - kFolds_start (length (fst (sh seq w))) k j)
                  (drop (kFolds_start (length (fst (sh seq w))) k j) (fst (sh seq w)))))
       [0..<k]"
  unfolding kFolds_def kFolds_list_Created map_upto_nat
  using assms by (simp add: fold_at_nat)

lemma concat_ranges:
  "concat (map (\<lambda>j. take (b (Suc j) - b j) (drop (b j) s)) [0..<m]) = take (b m - b 0) (drop (b 0) s)"
  if "\<And>i j. i \<le> j \<Longrightarrow> b i \<le> b j"
proof (induction m)
  case 0
  then show ?case by simp
next
  case (Suc m)
  have "b 0 \<le> b m" "b m \<le> b (Suc m)" using that by simp_all
  then have e: "b (Suc m) - b 0 = (b m - b 0) + (b (Suc m) - b m)" "b m - b 0 + b 0 = b m"
    by simp_all
  show ?case
    by (simp add: Suc.IH e take_add)
qed


lemma kFolds_list_nth:
  assumes "0 < k" "j < k"
  shows "kFolds_list sh (kFolds (int k)) seq w ! j =
     (take (kFolds_start (length (fst (sh seq w))) k j) (fst (sh seq w))
        @ drop (kFolds_start (length (fst (sh seq w))) k (Suc j)) (fst (sh seq w)),
      take (kFolds_start (length (fst (sh seq w))) k (Suc j)
             - kFolds_start (length (fst (sh seq w))) k j)
        (drop (kFolds_start (length (fst (sh seq w))) k j) (fst (sh seq w))))"
  using assms by (simp add: kFolds_list_nat)

lemma kFolds_list_length: "length (kFolds_list sh (kFolds k) seq w) = nat k"
  by (simp add: kFolds_def kFolds_list_Created)

lemma kFolds_list_tests:
  assumes "0 < k"
  shows "map snd (kFolds_list sh (kFolds (int k)) seq w) =
     map (\<lambda>j. take (kFolds_start (length (fst (sh seq w))) k (Suc j)
                       - kFolds_start (length (fst (sh seq w))) k j)
                  (drop (kFolds_start (length (fst (sh seq w))) k j) (fst (sh seq w))))
       [0..<k]"
  using assms by (simp add: kFolds_list_nat o_def)

lemma kFolds_list_concat:
  assumes "0 < k"
  shows "concat (map snd (kFolds_list sh (kFolds (int k)) seq w)) = fst (sh seq w)"
proof -
  let ?s = "fst (sh seq w)"
  have "concat (map snd (kFolds_list sh (kFolds (int k)) seq w)) =
      take (kFolds_start (length ?s) k k - kFolds_start (length ?s) k 0)
        (drop (kFolds_start (length ?s) k 0) ?s)"
    unfolding kFolds_list_tests[OF assms]
    by (rule concat_ranges) (rule kFolds_start_mono)
  then show ?thesis
    using assms by (simp add: kFolds_start_0 kFolds_start_k)
qed

lemma kFolds_test_length:
  assumes "0 < k" "j < k"
  shows "length (snd (kFolds_list sh (kFolds (int k)) seq w ! j)) =
     length (fst (sh seq w)) div k + (if j < length (fst (sh seq w)) mod k then 1 else 0)"
proof -
  have "kFolds_start (length (fst (sh seq w))) k (Suc j) \<le> length (fst (sh seq w))"
    using assms by (simp add: kFolds_start_le)
  then show ?thesis
    using assms by (simp add: kFolds_list_nth kFolds_start_Suc)
qed


lemma take_mid_drop:
  "a \<le> b \<Longrightarrow> take a s @ take (b - a) (drop a s) @ drop b s = s"
proof -
  assume "a \<le> b"
  then have "drop b s = drop (b - a) (drop a s)" by simp
  then have "take (b - a) (drop a s) @ drop b s = drop a s"
    by (simp only: append_take_drop_id)
  then show ?thesis by simp
qed

lemma mset_train_test:
  "a \<le> b \<Longrightarrow> mset (take a s @ drop b s) + mset (take (b - a) (drop a s)) = mset s"
proof -
  assume ab: "a \<le> b"
  have "mset (take a s @ drop b s) + mset (take (b - a) (drop a s)) =
      mset (take a s @ take (b - a) (drop a s) @ drop b s)"
    by simp
  then show ?thesis by (simp only: take_mid_drop[OF ab])
qed

subsection \<open>The folds partition the shuffled list\<close>

text \<open>
  C1. For a positive \<open>k\<close> and a shuffle that permutes the list, \<^verbatim>\<open>kFolds(seq, k)\<close>
  yields exactly \<open>k\<close> folds. Their test sets are consecutive ranges of the list as
  shuffled once: test set \<open>j\<close> is the range from \<open>start j\<close> to \<open>start (j + 1)\<close>, the
  ranges follow one another without overlap, and together, in order, they are the
  whole shuffled list, so the multiset union of the test sets is the multiset of the
  input. The first \<open>n mod k\<close> test sets have \<open>n div k + 1\<close> elements and the others
  \<open>n div k\<close>, so two sizes differ by at most 1. (The bound \<open>k \<le> n\<close> is not needed.)
\<close>

theorem kFolds_partition:
  assumes "0 < k" and "mset (fst (shuffle seq w)) = mset seq"
  shows "let folds = kFolds_list shuffle (kFolds k) seq w;
             s = fst (shuffle seq w);
             n = length seq;
             start = kFolds_start n (nat k)
         in length folds = nat k \<and>
            concat (map snd folds) = s \<and>
            sum_list (map (\<lambda>f. mset (snd f)) folds) = mset seq \<and>
            (\<forall>j<nat k. snd (folds ! j) = take (start (Suc j) - start j) (drop (start j) s) \<and>
                        start j \<le> start (Suc j) \<and> start (Suc j) \<le> n \<and>
                        length (snd (folds ! j)) = n div nat k + (if j < n mod nat k then 1 else 0)) \<and>
            (\<forall>i j. i < j \<longrightarrow> j < nat k \<longrightarrow> start (Suc i) \<le> start j) \<and>
            (\<forall>i<nat k. \<forall>j<nat k. length (snd (folds ! i)) \<le> length (snd (folds ! j)) + 1)"
proof -
  define m where "m = nat k"
  have k: "k = int m" and m: "0 < m" using assms(1) by (simp_all add: m_def)
  have len: "length (fst (shuffle seq w)) = length seq"
    using assms(2) by (metis size_mset)
  have c: "concat (map snd (kFolds_list shuffle (kFolds (int m)) seq w)) = fst (shuffle seq w)"
    by (rule kFolds_list_concat[OF m])
  have "mset (concat (map snd (kFolds_list shuffle (kFolds (int m)) seq w))) = mset seq"
    by (simp only: c assms(2))
  then have u: "sum_list (map (\<lambda>f. mset (snd f)) (kFolds_list shuffle (kFolds (int m)) seq w)) = mset seq"
    by (simp add: mset_concat o_def)
  have t: "snd (kFolds_list shuffle (kFolds (int m)) seq w ! j) =
      take (kFolds_start (length seq) m (Suc j) - kFolds_start (length seq) m j)
        (drop (kFolds_start (length seq) m j) (fst (shuffle seq w)))" if "j < m" for j
    using kFolds_list_nth[OF m that, of shuffle seq w] by (simp add: len)
  have l: "length (snd (kFolds_list shuffle (kFolds (int m)) seq w ! j)) =
      length seq div m + (if j < length seq mod m then 1 else 0)" if "j < m" for j
    using kFolds_test_length[OF m that, of shuffle seq w] by (simp add: len)
  have d: "kFolds_start (length seq) m (Suc i) \<le> kFolds_start (length seq) m j" if "i < j" for i j
    using that by (simp add: kFolds_start_mono)
  have b: "kFolds_start (length seq) m (Suc j) \<le> length seq" if "j < m" for j
    using that m by (simp add: kFolds_start_le)
  have e: "length (snd (kFolds_list shuffle (kFolds (int m)) seq w ! i))
      \<le> length (snd (kFolds_list shuffle (kFolds (int m)) seq w ! j)) + 1"
    if "i < m" "j < m" for i j
    using that by (simp add: l)
  show ?thesis
    unfolding Let_def k nat_int
    using c u t l d b e by (simp add: kFolds_list_length kFolds_start_mono)
qed


lemma demo_kFolds_list:
  "kFolds_list demo_shuffle (kFolds 2) [1, 2, 3, 4, 5 :: nat] (0 :: nat) =
     [([2, 1], [5, 4, 3]), ([5, 4, 3], [2, 1])]"
  by code_simp

theorem kFolds_partition_witness:
  "(0 :: int) < 2 \<and>
   mset (fst (demo_shuffle [1, 2, 3, 4, 5 :: nat] 0)) = mset [1, 2, 3, 4, 5] \<and>
   kFolds_list demo_shuffle (kFolds 2) [1, 2, 3, 4, 5 :: nat] 0 =
     [([2, 1], [5, 4, 3]), ([5, 4, 3], [2, 1])] \<and>
   length (kFolds_list demo_shuffle (kFolds 2) [1, 2, 3, 4, 5 :: nat] 0) = nat 2 \<and>
   concat (map snd (kFolds_list demo_shuffle (kFolds 2) [1, 2, 3, 4, 5 :: nat] 0)) = [5, 4, 3, 2, 1] \<and>
   sum_list (map (\<lambda>f. mset (snd f)) (kFolds_list demo_shuffle (kFolds 2) [1, 2, 3, 4, 5 :: nat] 0))
     = mset [1, 2, 3, 4, 5]"
proof -
  have p: "mset (fst (demo_shuffle [1, 2, 3, 4, 5 :: nat] 0)) = mset [1, 2, 3, 4, 5]"
    by (simp add: demo_shuffle_def)
  have k: "(0 :: int) < 2" by simp
  have r: "fst (demo_shuffle [1, 2, 3, 4, 5 :: nat] 0) = [5, 4, 3, 2, 1]"
    by (simp add: demo_shuffle_def)
  note t = kFolds_partition[where k = 2 and shuffle = demo_shuffle
      and seq = "[1, 2, 3, 4, 5 :: nat]" and w = 0, OF k p, unfolded Let_def r]
  from t have a: "length (kFolds_list demo_shuffle (kFolds 2) [1, 2, 3, 4, 5 :: nat] 0) = nat 2"
    by (rule conjunct1)
  from t have b: "concat (map snd (kFolds_list demo_shuffle (kFolds 2) [1, 2, 3, 4, 5 :: nat] 0))
      = [5, 4, 3, 2, 1]"
    by (elim conjE)
  from t have c: "sum_list (map (\<lambda>f. mset (snd f))
      (kFolds_list demo_shuffle (kFolds 2) [1, 2, 3, 4, 5 :: nat] 0)) = mset [1, 2, 3, 4, 5]"
    by (elim conjE)
  show ?thesis
    by (intro conjI) (rule k p demo_kFolds_list a b c)+
qed

text \<open>
  C2. Every fold that \<^verbatim>\<open>kFolds\<close> yields splits the shuffled list at two positions
  \<open>start \<le> stop\<close>: the test set is the range from \<open>start\<close> to \<open>stop\<close>, the training
  set is what lies before \<open>start\<close> followed by what lies from \<open>stop\<close> on. The two
  index ranges are disjoint and cover the list, and the multiset union of the two
  sets is the multiset of the input, for a shuffle that permutes the list.
\<close>

theorem kFolds_train_test:
  assumes "mset (fst (shuffle seq w)) = mset seq"
    and "(trainSet, testSet) \<in> set (kFolds_list shuffle (kFolds k) seq w)"
  shows "\<exists>start stop. start \<le> stop \<and> stop \<le> length (fst (shuffle seq w)) \<and>
           trainSet = take start (fst (shuffle seq w)) @ drop stop (fst (shuffle seq w)) \<and>
           testSet = take (stop - start) (drop start (fst (shuffle seq w))) \<and>
           mset trainSet + mset testSet = mset seq"
proof -
  let ?s = "fst (shuffle seq w)"
  define m where "m = nat k"
  have "kFolds_list shuffle (kFolds k) seq w \<noteq> []" using assms(2) by auto
  then have "nat k \<noteq> 0" using kFolds_list_length[of shuffle k seq w] by auto
  then have k: "k = int m" and m: "0 < m" by (simp_all add: m_def)
  from assms(2) obtain j where j: "j < m"
    and tr: "trainSet = take (kFolds_start (length ?s) m j) ?s @ drop (kFolds_start (length ?s) m (Suc j)) ?s"
    and te: "testSet = take (kFolds_start (length ?s) m (Suc j) - kFolds_start (length ?s) m j)
                (drop (kFolds_start (length ?s) m j) ?s)"
    unfolding k kFolds_list_nat[OF m] by auto
  have a: "kFolds_start (length ?s) m j \<le> kFolds_start (length ?s) m (Suc j)"
    by (simp add: kFolds_start_mono)
  have b: "kFolds_start (length ?s) m (Suc j) \<le> length ?s"
    using j m by (simp add: kFolds_start_le)
  have "mset trainSet + mset testSet = mset ?s"
    unfolding tr te by (rule mset_train_test[OF a])
  with assms(1) have "mset trainSet + mset testSet = mset seq" by simp
  with a b tr te show ?thesis by blast
qed

theorem kFolds_train_test_witness:
  "mset (fst (demo_shuffle [1, 2, 3, 4, 5 :: nat] 0)) = mset [1, 2, 3, 4, 5] \<and>
   ([2, 1], [5, 4, 3]) \<in> set (kFolds_list demo_shuffle (kFolds 2) [1, 2, 3, 4, 5 :: nat] (0 :: nat)) \<and>
   (\<exists>start stop. start \<le> stop \<and> stop \<le> length [5, 4, 3, 2, 1 :: nat] \<and>
      [2, 1] = take start [5, 4, 3, 2, 1 :: nat] @ drop stop [5, 4, 3, 2, 1] \<and>
      [5, 4, 3] = take (stop - start) (drop start [5, 4, 3, 2, 1 :: nat]) \<and>
      mset [2, 1] + mset [5, 4, 3] = mset [1, 2, 3, 4, 5 :: nat])"
proof -
  have p: "mset (fst (demo_shuffle [1, 2, 3, 4, 5 :: nat] 0)) = mset [1, 2, 3, 4, 5]"
    by (simp add: demo_shuffle_def)
  have r: "fst (demo_shuffle [1, 2, 3, 4, 5 :: nat] 0) = [5, 4, 3, 2, 1]"
    by (simp add: demo_shuffle_def)
  have m: "([2, 1], [5, 4, 3]) \<in> set (kFolds_list demo_shuffle (kFolds 2) [1, 2, 3, 4, 5 :: nat] (0 :: nat))"
    by (simp only: demo_kFolds_list) simp
  note t = kFolds_train_test[OF p m, unfolded r]
  from p m t show ?thesis
    by (intro conjI)
qed

subsection \<open>The shuffle is in place\<close>

text \<open>
  C9. Creating the generator runs no line of \<^verbatim>\<open>kFolds\<close>. The first \<^verbatim>\<open>next\<close> leaves
  the caller's list as \<^verbatim>\<open>rd.shuffle\<close> has permuted it (and the generator of random
  numbers as the shuffle has left it); every later \<^verbatim>\<open>next\<close> leaves the list as it
  finds it. Every fold yielded is made of slices of the shuffled list.
\<close>

theorem kFolds_shuffles_in_place:
  "(\<exists>y g. kFolds_next shuffle (kFolds k) seq w = (y, g, shuffle seq w)) \<and>
   (\<forall>j a b s v. \<exists>y g. kFolds_next shuffle (Suspended k j a b) s v = (y, g, s, v)) \<and>
   (\<forall>s v. kFolds_next shuffle Exhausted s v = (None, Exhausted, s, v)) \<and>
   (\<forall>(trainSet, testSet) \<in> set (kFolds_list shuffle (kFolds k) seq w).
      \<exists>start stop. trainSet = slice_to (fst (shuffle seq w)) start @ slice_from (fst (shuffle seq w)) stop \<and>
                   testSet = slice (fst (shuffle seq w)) start stop)"
proof (intro conjI allI)
  show "\<exists>y g. kFolds_next shuffle (kFolds k) seq w = (y, g, shuffle seq w)"
    by (simp add: kFolds_def kFolds_turn_def Let_def split: prod.splits)
next
  fix j a b s v
  show "\<exists>y g. kFolds_next shuffle (Suspended k j a b) s v = (y, g, s, v)"
    by (simp add: kFolds_turn_def Let_def split: prod.splits)
next
  fix s :: "'a list" and v :: 'b
  show "kFolds_next shuffle Exhausted s v = (None, Exhausted, s, v)" by simp
next
  show "\<forall>(trainSet, testSet) \<in> set (kFolds_list shuffle (kFolds k) seq w).
      \<exists>start stop. trainSet = slice_to (fst (shuffle seq w)) start @ slice_from (fst (shuffle seq w)) stop \<and>
                   testSet = slice (fst (shuffle seq w)) start stop"
    unfolding kFolds_def kFolds_list_Created
    by (auto simp: fold_at_def)
qed

theorem kFolds_shuffles_in_place_witness:
  "kFolds_next demo_shuffle (kFolds 2) [1, 2, 3, 4, 5 :: nat] (0 :: nat) =
     (Some ([2, 1], [5, 4, 3]), Suspended 2 0 0 3, [5, 4, 3, 2, 1], 1) \<and>
   ([2, 1], [5, 4, 3]) \<in> set (kFolds_list demo_shuffle (kFolds 2) [1, 2, 3, 4, 5 :: nat] (0 :: nat)) \<and>
   (\<exists>start stop. [2, 1] = slice_to [5, 4, 3, 2, 1 :: nat] start @ slice_from [5, 4, 3, 2, 1] stop \<and>
      [5, 4, 3] = slice [5, 4, 3, 2, 1 :: nat] start stop) \<and>
   [5, 4, 3] \<noteq> slice [1, 2, 3, 4, 5 :: nat] 0 3"
proof -
  have r: "fst (demo_shuffle [1, 2, 3, 4, 5 :: nat] 0) = [5, 4, 3, 2, 1]"
    by (simp add: demo_shuffle_def)
  have n: "kFolds_next demo_shuffle (kFolds 2) [1, 2, 3, 4, 5 :: nat] (0 :: nat) =
     (Some ([2, 1], [5, 4, 3]), Suspended 2 0 0 3, [5, 4, 3, 2, 1], 1)"
    by code_simp
  have m: "([2, 1], [5, 4, 3]) \<in> set (kFolds_list demo_shuffle (kFolds 2) [1, 2, 3, 4, 5 :: nat] (0 :: nat))"
    by (simp only: demo_kFolds_list) simp
  have d: "[5, 4, 3] \<noteq> slice [1, 2, 3, 4, 5 :: nat] 0 3"
    by (simp add: slice_def py_bound_def)
  from kFolds_shuffles_in_place[of demo_shuffle 2 "[1, 2, 3, 4, 5 :: nat]" "0 :: nat", unfolded r]
  have "\<forall>(trainSet, testSet) \<in> set (kFolds_list demo_shuffle (kFolds 2) [1, 2, 3, 4, 5 :: nat] (0 :: nat)).
      \<exists>start stop. trainSet = slice_to [5, 4, 3, 2, 1] start @ slice_from [5, 4, 3, 2, 1] stop \<and>
                   testSet = slice [5, 4, 3, 2, 1] start stop"
    by (elim conjE)
  with m have "\<exists>start stop. [2, 1] = slice_to [5, 4, 3, 2, 1 :: nat] start @ slice_from [5, 4, 3, 2, 1] stop \<and>
      [5, 4, 3] = slice [5, 4, 3, 2, 1 :: nat] start stop"
    by blast
  with n m d show ?thesis
    by (intro conjI)
qed

section \<open>Properties of \<^verbatim>\<open>main\<close> and \<^verbatim>\<open>getRmse\<close>\<close>

subsection \<open>The loop over the generator is the loop over the list of its folds\<close>

lemma kFolds_next_fuel:
  "kFolds_next sh g s w = (Some f, g', s', w') \<Longrightarrow> kFolds_fuel g' < kFolds_fuel g"
  by (cases g) (auto simp: kFolds_turn_def Let_def split: prod.splits if_splits)

lemma kFolds_next_started:
  "(\<forall>k. g \<noteq> Created k) \<Longrightarrow> \<exists>y g'. kFolds_next sh g s w = (y, g', s, w) \<and>
      (\<forall>v. kFolds_next sh g s v = (y, g', s, v)) \<and> (\<forall>k. g' \<noteq> Created k)"
  by (cases g) (auto simp: kFolds_turn_def Let_def split: prod.splits)

lemma kFolds_list_started:
  "(\<forall>k. g \<noteq> Created k) \<Longrightarrow> kFolds_list sh g s w = kFolds_list sh g s v"
proof (induction "kFolds_fuel g" arbitrary: g rule: less_induct)
  case less
  from kFolds_next_started[OF less.prems, of sh s w] obtain y g'
    where n: "kFolds_next sh g s w = (y, g', s, w)" "\<And>v. kFolds_next sh g s v = (y, g', s, v)"
      and g': "\<forall>k. g' \<noteq> Created k"
    by blast
  show ?case
  proof (cases y)
    case None
    with n show ?thesis
      by (simp add: kFolds_list.simps[of sh g s])
  next
    case (Some f)
    with n have "kFolds_fuel g' < kFolds_fuel g" by (auto dest: kFolds_next_fuel)
    from less.hyps[OF this g']
    have "kFolds_list sh g' s w = kFolds_list sh g' s v" .
    with Some n show ?thesis
      by (simp add: kFolds_list.simps[of sh g s])
  qed
qed

lemma cv_loop_started:
  "(\<forall>k. g \<noteq> Created k) \<Longrightarrow>
     cv_loop ext args RC g s rmses w =
       eval_folds ext args RC (kFolds_list (rd_shuffle ext) g s (rng w)) rmses w"
proof (induction "kFolds_fuel g" arbitrary: g rmses w rule: less_induct)
  case less
  from kFolds_next_started[OF less.prems, of "rd_shuffle ext" s "rng w"] obtain y g'
    where n: "kFolds_next (rd_shuffle ext) g s (rng w) = (y, g', s, rng w)"
      and g': "\<forall>k. g' \<noteq> Created k"
    by blast
  show ?case
  proof (cases y)
    case None
    with n show ?thesis
      by (simp add: kFolds_list.simps[of _ g s] cv_loop.simps[of ext args RC g s])
  next
    case (Some f)
    with n have fuel: "kFolds_fuel g' < kFolds_fuel g" by (auto dest: kFolds_next_fuel)
    obtain trainSet testSet where f: "f = (trainSet, testSet)" by (cases f)
    obtain r w' where r: "getRmse ext args RC trainSet testSet w = (r, w')"
      by (cases "getRmse ext args RC trainSet testSet w")
    show ?thesis
    proof (cases r)
      case (Inl e)
      with Some f r n show ?thesis
        by (simp add: kFolds_list.simps[of _ g s] cv_loop.simps[of ext args RC g s])
    next
      case (Inr x)
      have "cv_loop ext args RC g' s (rmses @ [x]) w' =
          eval_folds ext args RC (kFolds_list (rd_shuffle ext) g' s (rng w')) (rmses @ [x]) w'"
        by (rule less.hyps[OF fuel g'])
      moreover have "kFolds_list (rd_shuffle ext) g' s (rng w') = kFolds_list (rd_shuffle ext) g' s (rng w)"
        using g' by (rule kFolds_list_started)
      ultimately show ?thesis
        using Some f r n Inr
        by (simp add: kFolds_list.simps[of _ g s] cv_loop.simps[of ext args RC g s])
    qed
  qed
qed

lemma cv_loop_kFolds:
  "cv_loop ext args RC (kFolds k) seq rmses w =
     eval_folds ext args RC (kFolds_list (rd_shuffle ext) (kFolds k) seq (rng w)) rmses
       (w\<lparr>rng := snd (rd_shuffle ext seq (rng w))\<rparr>)"
proof -
  obtain s r where sh: "rd_shuffle ext seq (rng w) = (s, r)" by (cases "rd_shuffle ext seq (rng w)")
  obtain y g where t: "kFolds_turn k 0 0 s = (y, g)" by (cases "kFolds_turn k 0 0 s")
  have g: "\<forall>k. g \<noteq> Created k" using t by (auto simp: kFolds_turn_def Let_def split: if_splits)
  have n: "kFolds_next (rd_shuffle ext) (Created k) seq (rng w) = (y, g, s, r)"
    using sh t by simp
  show ?thesis
  proof (cases y)
    case None
    with n sh show ?thesis
      by (simp add: kFolds_def kFolds_list.simps[of _ "Created k"] cv_loop.simps[of _ _ _ "Created k"])
  next
    case (Some f)
    obtain trainSet testSet where f: "f = (trainSet, testSet)" by (cases f)
    obtain res w' where r: "getRmse ext args RC trainSet testSet (w\<lparr>rng := r\<rparr>) = (res, w')"
      by (cases "getRmse ext args RC trainSet testSet (w\<lparr>rng := r\<rparr>)")
    have "kFolds_list (rd_shuffle ext) g s (rng w') = kFolds_list (rd_shuffle ext) g s r"
      using g by (rule kFolds_list_started)
    with Some f r n sh g show ?thesis
      by (cases res)
        (simp_all add: kFolds_def kFolds_list.simps[of _ "Created k"]
          cv_loop.simps[of _ _ _ "Created k"] cv_loop_started)
  qed
qed

lemma eval_folds_append:
  "eval_folds ext args RC (fs1 @ fs2) rmses w =
     (case eval_folds ext args RC fs1 rmses w of
        (Inl e, w') \<Rightarrow> (Inl e, w')
      | (Inr rs, w') \<Rightarrow> eval_folds ext args RC fs2 rs w')"
  by (induction fs1 arbitrary: rmses w) (auto split: prod.splits sum.splits)

lemma eval_folds_results:
  "eval_folds ext args RC folds rmses w = (Inr rs, w') \<Longrightarrow>
     \<exists>xs. rs = rmses @ xs \<and>
       list_all2 (\<lambda>(trainSet, testSet) x. \<exists>wa wb. getRmse ext args RC trainSet testSet wa = (Inr x, wb))
         folds xs"
proof (induction folds arbitrary: rmses w)
  case Nil
  then show ?case by simp
next
  case (Cons f folds)
  obtain trainSet testSet where f: "f = (trainSet, testSet)" by (cases f)
  from Cons.prems f obtain x w1 where
    g: "getRmse ext args RC trainSet testSet w = (Inr x, w1)"
    and e: "eval_folds ext args RC folds (rmses @ [x]) w1 = (Inr rs, w')"
    by (auto split: prod.splits sum.splits)
  from Cons.IH[OF e] obtain xs where
    "rs = (rmses @ [x]) @ xs"
    "list_all2 (\<lambda>(trainSet, testSet) x. \<exists>wa wb. getRmse ext args RC trainSet testSet wa = (Inr x, wb))
         folds xs"
    by blast
  with g f show ?case
    by (intro exI[of _ "x # xs"]) auto
qed


subsection \<open>Running the parts of \<^verbatim>\<open>main\<close>\<close>

lemma then_do_Inl: "m w = (Inl e, w') \<Longrightarrow> then_do m f w = (Inl e, w')"
  by (simp add: then_do_def)

lemma then_do_Inr: "m w = (Inr x, w') \<Longrightarrow> then_do m f w = f x w'"
  by (simp add: then_do_def)

lemma then_do_Inr_iff:
  "then_do m f w = (Inr y, w') \<longleftrightarrow> (\<exists>x w1. m w = (Inr x, w1) \<and> f x w1 = (Inr y, w'))"
  by (auto simp: then_do_def split: prod.splits sum.splits)

lemma on_env_rng: "on_env m w = (r, w') \<Longrightarrow> rng w' = rng w"
  by (auto simp: on_env_def split: prod.splits)

lemma on_env_eq: "on_env m w = (r, w') \<longleftrightarrow> (\<exists>e'. m (env w) = (r, e') \<and> w' = w\<lparr>env := e'\<rparr>)"
  by (auto simp: on_env_def split: prod.splits)

lemma getRmse_result:
  "getRmse ext args RC trainSet testSet w = (Inr x, w') \<Longrightarrow>
     \<exists>algo wt. getRmse_tested ext args RC trainSet testSet w = (Inr algo, wt) \<and>
       computeStats ext (preds algo) = Inr x"
  by (auto simp: getRmse_def then_do_Inr_iff lift_result_def)

lemma run_cv_eq:
  "run_cv ext args w =
     (case getRawRatings ext (args_dataset args) None (env w) of
        (Inl e, e1) \<Rightarrow> (Inl e, w\<lparr>env := e1\<rparr>)
      | (Inr (rawRatings, RC), e1) \<Rightarrow>
          eval_folds ext args RC
            (kFolds_list (rd_shuffle ext) (kFolds (args_cv args)) rawRatings (rng w)) []
            (w\<lparr>env := e1, rng := snd (rd_shuffle ext rawRatings (rng w))\<rparr>))"
  by (simp add: run_cv_def then_do_def on_env_def cv_loop_kFolds split: prod.splits sum.splits)

lemma ensure_datasets_rng: "ensure_datasets ext w = (r, w') \<Longrightarrow> rng w' = rng w"
  unfolding ensure_datasets_def by (rule on_env_rng)

lemma demo_parse: "parse_args demo_cmdline = Inr demo_args"
  by code_simp

lemma demo_mode: "\<not> (truthy (args_trainFile demo_args) \<and> truthy (args_testFile demo_args))"
  by code_simp

lemma demo_main:
  "main demo_ext demo_cmdline \<lparr>rng = 0, env = 0\<rparr> = (Inr 4, \<lparr>rng = 8, env = 8\<rparr>)"
  by code_simp

subsection \<open>The mean over the folds\<close>

text \<open>
  C5. In cross-validation mode (not both of \<^verbatim>\<open>-trainFile\<close> and \<^verbatim>\<open>-testFile\<close>
  given), a run of \<^verbatim>\<open>main\<close> that ends without an exception has evaluated the folds
  of \<^verbatim>\<open>kFolds(rawRatings, args.cv)\<close> one after the other, in the order in which they
  are yielded: \<^verbatim>\<open>rmses\<close> has one value for each fold, in order, the value for a fold is
  the result of \<^verbatim>\<open>computeStats\<close> on the \<^verbatim>\<open>preds\<close> of the algorithm that
  \<^verbatim>\<open>getRmse\<close> has built and tested on that fold, and the value reported is
  \<^verbatim>\<open>np.mean(rmses)\<close>.
\<close>

theorem main_cv_mean:
  assumes "parse_args cl = Inr args"
    and "\<not> (truthy (args_trainFile args) \<and> truthy (args_testFile args))"
    and "main ext cl w = (Inr m, w')"
  shows "\<exists>w1 rawRatings RC e1 rmses.
           ensure_datasets ext (rd_seed ext (args_seed args) w) = (Inr (), w1) \<and>
           getRawRatings ext (args_dataset args) None (env w1) = (Inr (rawRatings, RC), e1) \<and>
           eval_folds ext args RC
             (kFolds_list (rd_shuffle ext) (kFolds (args_cv args)) rawRatings
                (rng (rd_seed ext (args_seed args) w))) []
             (w1\<lparr>env := e1, rng := snd (rd_shuffle ext rawRatings (rng w1))\<rparr>) = (Inr rmses, w') \<and>
           list_all2
             (\<lambda>(trainSet, testSet) x. \<exists>wa algo wb.
                getRmse_tested ext args RC trainSet testSet wa = (Inr algo, wb) \<and>
                computeStats ext (preds algo) = Inr x)
             (kFolds_list (rd_shuffle ext) (kFolds (args_cv args)) rawRatings
                (rng (rd_seed ext (args_seed args) w)))
             rmses \<and>
           m = np_mean ext rmses"
proof -
  from assms have "run ext args w = (Inr m, w')" by (simp add: main_def)
  then obtain u w1 rmses w2 where
    e: "ensure_datasets ext (rd_seed ext (args_seed args) w) = (Inr u, w1)"
    and c: "run_cv ext args w1 = (Inr rmses, w2)"
    and m: "ok (np_mean ext rmses) w2 = (Inr m, w')"
    using assms(2) unfolding run_def then_do_Inr_iff by auto
  have r: "rng w1 = rng (rd_seed ext (args_seed args) w)"
    using e by (rule ensure_datasets_rng)
  from m have m': "m = np_mean ext rmses" "w2 = w'" by (simp_all add: ok_def)
  from c obtain rawRatings RC e1 where
    g: "getRawRatings ext (args_dataset args) None (env w1) = (Inr (rawRatings, RC), e1)"
    and f: "eval_folds ext args RC
            (kFolds_list (rd_shuffle ext) (kFolds (args_cv args)) rawRatings (rng w1)) []
            (w1\<lparr>env := e1, rng := snd (rd_shuffle ext rawRatings (rng w1))\<rparr>) = (Inr rmses, w2)"
    unfolding run_cv_eq by (auto split: prod.splits sum.splits)
  from eval_folds_results[OF f] have
    "list_all2 (\<lambda>(trainSet, testSet) x. \<exists>wa wb. getRmse ext args RC trainSet testSet wa = (Inr x, wb))
       (kFolds_list (rd_shuffle ext) (kFolds (args_cv args)) rawRatings (rng w1)) rmses"
    by simp
  then have "list_all2
             (\<lambda>(trainSet, testSet) x. \<exists>wa algo wb.
                getRmse_tested ext args RC trainSet testSet wa = (Inr algo, wb) \<and>
                computeStats ext (preds algo) = Inr x)
             (kFolds_list (rd_shuffle ext) (kFolds (args_cv args)) rawRatings (rng w1)) rmses"
    by (rule list_all2_mono) (fastforce dest: getRmse_result)
  with e g f m' r show ?thesis
    by (intro exI[of _ w1] exI[of _ rawRatings] exI[of _ RC] exI[of _ e1] exI[of _ rmses]) simp
qed


theorem main_cv_mean_witness:
  "parse_args demo_cmdline = Inr demo_args \<and>
   \<not> (truthy (args_trainFile demo_args) \<and> truthy (args_testFile demo_args)) \<and>
   main demo_ext demo_cmdline \<lparr>rng = 0, env = 0\<rparr> = (Inr 4, \<lparr>rng = 8, env = 8\<rparr>) \<and>
   (\<exists>rawRatings RC rmses.
      list_all2
        (\<lambda>(trainSet, testSet) x. \<exists>wa algo wb.
           getRmse_tested demo_ext demo_args RC trainSet testSet wa = (Inr algo, wb) \<and>
           computeStats demo_ext (preds algo) = Inr x)
        (kFolds_list (rd_shuffle demo_ext) (kFolds (args_cv demo_args)) rawRatings
           (rng (rd_seed demo_ext (args_seed demo_args) \<lparr>rng = 0, env = 0\<rparr>)))
        rmses \<and>
      4 = np_mean demo_ext rmses)"
proof -
  from main_cv_mean[OF demo_parse demo_mode demo_main]
  have "\<exists>rawRatings RC rmses.
      list_all2
        (\<lambda>(trainSet, testSet) x. \<exists>wa algo wb.
           getRmse_tested demo_ext demo_args RC trainSet testSet wa = (Inr algo, wb) \<and>
           computeStats demo_ext (preds algo) = Inr x)
        (kFolds_list (rd_shuffle demo_ext) (kFolds (args_cv demo_args)) rawRatings
           (rng (rd_seed demo_ext (args_seed demo_args) \<lparr>rng = 0, env = 0\<rparr>)))
        rmses \<and>
      4 = np_mean demo_ext rmses"
    by blast
  with demo_parse demo_mode demo_main show ?thesis by (intro conjI)
qed

subsection \<open>What the parsing of the command line rejects\<close>

lemma parse_args_bad: "bad_choice cl \<Longrightarrow> parse_args cl = Inl (SystemExit 2)"
  by (auto simp: bad_choice_def parse_args_def with_choices_def split: option.splits sum.splits)

lemma parse_args_good:
  "\<not> bad_choice cl \<Longrightarrow> \<exists>args. parse_args cl = Inr args \<and>
     args_k args = with_default 40 (opt_k cl) \<and> args_cv args = with_default 5 (opt_cv cl)"
  by (auto simp: bad_choice_def parse_args_def with_choices_def split: option.splits sum.splits)

text \<open>
  C4, as the code has it. A value of \<^verbatim>\<open>-algo\<close>, \<^verbatim>\<open>-sim\<close>, \<^verbatim>\<open>-method\<close> or
  \<^verbatim>\<open>-dataset\<close> that is not among the choices of its option is the only thing that
  the parsing of the command line rejects: it ends the run with exit status 2 before
  anything else has happened (the process-wide state is as it was). The neighbour
  count \<^verbatim>\<open>-k\<close> and the fold count \<^verbatim>\<open>-cv\<close> are taken as they are given, whatever
  their sign, and the run goes on with them.
\<close>

theorem choices_checked_at_startup:
  "(bad_choice cl \<longleftrightarrow> parse_args cl = Inl (SystemExit 2)) \<and>
   (\<forall>e. parse_args cl = Inl e \<longrightarrow> e = SystemExit 2 \<and> main ext cl w = (Inl e, w)) \<and>
   (\<not> bad_choice cl \<longrightarrow>
      (\<exists>args. parse_args cl = Inr args \<and>
         args_k args = with_default 40 (opt_k cl) \<and>
         args_cv args = with_default 5 (opt_cv cl) \<and>
         main ext cl w = run ext args w))"
proof (cases "bad_choice cl")
  case True
  then show ?thesis
    by (simp add: parse_args_bad main_def)
next
  case False
  from parse_args_good[OF this] obtain args where
    "parse_args cl = Inr args" "args_k args = with_default 40 (opt_k cl)"
    "args_cv args = with_default 5 (opt_cv cl)"
    by blast
  with False show ?thesis
    by (simp add: main_def)
qed

lemma demo_bad_algo: "bad_choice (demo_cmdline\<lparr>opt_algo := Some ''SVD''\<rparr>)"
  by code_simp

lemma demo_good_k0: "\<not> bad_choice (demo_cmdline\<lparr>opt_k := Some 0\<rparr>)"
  by code_simp


theorem choices_checked_at_startup_witness:
  "bad_choice (demo_cmdline\<lparr>opt_algo := Some ''SVD''\<rparr>) \<and>
   parse_args (demo_cmdline\<lparr>opt_algo := Some ''SVD''\<rparr>) = Inl (SystemExit 2) \<and>
   main demo_ext (demo_cmdline\<lparr>opt_algo := Some ''SVD''\<rparr>) \<lparr>rng = 0, env = 0\<rparr>
     = (Inl (SystemExit 2), \<lparr>rng = 0, env = 0\<rparr>) \<and>
   \<not> bad_choice (demo_cmdline\<lparr>opt_k := Some 0\<rparr>) \<and>
   (\<exists>args. parse_args (demo_cmdline\<lparr>opt_k := Some 0\<rparr>) = Inr args \<and>
      args_k args = with_default 40 (opt_k (demo_cmdline\<lparr>opt_k := Some 0\<rparr>)) \<and>
      args_cv args = with_default 5 (opt_cv (demo_cmdline\<lparr>opt_k := Some 0\<rparr>)) \<and>
      main demo_ext (demo_cmdline\<lparr>opt_k := Some 0\<rparr>) \<lparr>rng = 0, env = 0\<rparr>
        = run demo_ext args \<lparr>rng = 0, env = 0\<rparr>)"
proof -
  note a = choices_checked_at_startup[of "demo_cmdline\<lparr>opt_algo := Some ''SVD''\<rparr>" demo_ext
      "\<lparr>rng = 0, env = 0\<rparr>"]
  note b = choices_checked_at_startup[of "demo_cmdline\<lparr>opt_k := Some 0\<rparr>" demo_ext
      "\<lparr>rng = 0, env = 0\<rparr>"]
  from a demo_bad_algo have p: "parse_args (demo_cmdline\<lparr>opt_algo := Some ''SVD''\<rparr>) = Inl (SystemExit 2)"
    by blast
  with a have m: "main demo_ext (demo_cmdline\<lparr>opt_algo := Some ''SVD''\<rparr>) \<lparr>rng = 0, env = 0\<rparr>
     = (Inl (SystemExit 2), \<lparr>rng = 0, env = 0\<rparr>)"
    by blast
  from b demo_good_k0 have "\<exists>args. parse_args (demo_cmdline\<lparr>opt_k := Some 0\<rparr>) = Inr args \<and>
      args_k args = with_default 40 (opt_k (demo_cmdline\<lparr>opt_k := Some 0\<rparr>)) \<and>
      args_cv args = with_default 5 (opt_cv (demo_cmdline\<lparr>opt_k := Some 0\<rparr>)) \<and>
      main demo_ext (demo_cmdline\<lparr>opt_k := Some 0\<rparr>) \<lparr>rng = 0, env = 0\<rparr>
        = run demo_ext args \<lparr>rng = 0, env = 0\<rparr>"
    by blast
  with demo_bad_algo p m demo_good_k0 show ?thesis
    by (intro conjI)
qed

text \<open>
  C4, as the claim states it, fails: with a fold count of \<open>-1\<close> the run ends without
  any error and reports the mean of no value, and with a neighbour count of \<open>0\<close>, which
  \<^verbatim>\<open>main\<close> hands to the constructor of the algorithm unchecked, the run trains and
  tests as with any other count.
\<close>

theorem nonpositive_k_cv_accepted:
  "main demo_ext (demo_cmdline\<lparr>opt_cv := Some (- 1)\<rparr>) \<lparr>rng = 0, env = 0\<rparr> = (Inr 0, \<lparr>rng = 8, env = 0\<rparr>) \<and>
   main demo_ext (demo_cmdline\<lparr>opt_k := Some 0\<rparr>) \<lparr>rng = 0, env = 0\<rparr> = (Inr 4, \<lparr>rng = 8, env = 8\<rparr>)"
  by code_simp

subsection \<open>A fold count that is not positive\<close>

lemma kFolds_list_nonpositive: "k \<le> 0 \<Longrightarrow> kFolds_list sh (kFolds k) s u = []"
  by (simp add: kFolds_list_Created kFolds_def)

text \<open>
  C10. For \<open>k \<le> 0\<close>, \<^verbatim>\<open>kFolds(seq, k)\<close> yields no fold and raises nothing: the first
  \<^verbatim>\<open>next\<close> shuffles the list and finds the generator exhausted. The loop of
  \<^verbatim>\<open>main\<close> then leaves \<^verbatim>\<open>rmses\<close> as it is, and a run in cross-validation mode
  with such a fold count calls \<^verbatim>\<open>getRmse\<close> for no fold (the state is the one left
  by the loading of the ratings and the shuffle) and reports \<^verbatim>\<open>np.mean([])\<close>.
\<close>

theorem kFolds_nonpositive:
  assumes "k \<le> 0"
  shows "kFolds_list shuffle (kFolds k) seq w = [] \<and>
         kFolds_next shuffle (kFolds k) seq w = (None, Exhausted, shuffle seq w) \<and>
         cv_loop ext args RC (kFolds k) rawRatings rmses v =
           (Inr rmses, v\<lparr>rng := snd (rd_shuffle ext rawRatings (rng v))\<rparr>) \<and>
         (parse_args cl = Inr args \<longrightarrow> args_cv args = k \<longrightarrow>
          \<not> (truthy (args_trainFile args) \<and> truthy (args_testFile args)) \<longrightarrow>
          ensure_datasets ext (rd_seed ext (args_seed args) w0) = (Inr (), w1) \<longrightarrow>
          getRawRatings ext (args_dataset args) None (env w1) = (Inr (rawRatings, RC), e1) \<longrightarrow>
          run_cv ext args w1 = (Inr [], w1\<lparr>env := e1, rng := snd (rd_shuffle ext rawRatings (rng w1))\<rparr>) \<and>
          main ext cl w0 =
            (Inr (np_mean ext []), w1\<lparr>env := e1, rng := snd (rd_shuffle ext rawRatings (rng w1))\<rparr>))"
proof -
  note a = kFolds_list_nonpositive[OF assms]
  have b: "kFolds_next shuffle (kFolds k) seq w = (None, Exhausted, shuffle seq w)"
    using assms by (simp add: kFolds_def kFolds_turn_def split: prod.splits)
  have c: "cv_loop ext args RC (kFolds k) rawRatings rmses v =
           (Inr rmses, v\<lparr>rng := snd (rd_shuffle ext rawRatings (rng v))\<rparr>)"
    by (simp add: cv_loop_kFolds a)
  have d: "run_cv ext args w1 = (Inr [], w1\<lparr>env := e1, rng := snd (rd_shuffle ext rawRatings (rng w1))\<rparr>)"
    if "args_cv args = k"
      "getRawRatings ext (args_dataset args) None (env w1) = (Inr (rawRatings, RC), e1)"
    using that by (simp add: run_cv_eq a)
  have e: "main ext cl w0 =
            (Inr (np_mean ext []), w1\<lparr>env := e1, rng := snd (rd_shuffle ext rawRatings (rng w1))\<rparr>)"
    if "parse_args cl = Inr args" "args_cv args = k"
      "\<not> (truthy (args_trainFile args) \<and> truthy (args_testFile args))"
      "ensure_datasets ext (rd_seed ext (args_seed args) w0) = (Inr (), w1)"
      "getRawRatings ext (args_dataset args) None (env w1) = (Inr (rawRatings, RC), e1)"
    using that d[OF that(2,5)] by (auto simp: main_def run_def then_do_def ok_def)
  from a[of shuffle seq w] b c d e show ?thesis by blast
qed


lemma demo_parse_cv0: "parse_args (demo_cmdline\<lparr>opt_cv := Some 0\<rparr>) = Inr (demo_args\<lparr>args_cv := 0\<rparr>)"
  by code_simp

lemma demo_ensure:
  "ensure_datasets demo_ext (rd_seed demo_ext (Some 7) \<lparr>rng = 0, env = 0\<rparr>)
     = (Inr (), \<lparr>rng = 7, env = 0\<rparr>)"
  by code_simp

lemma demo_getRawRatings:
  "getRawRatings demo_ext d None e = (Inr (demo_ratings, \<lambda>raw. raw), e)"
  by (simp add: demo_ext_def)

theorem kFolds_nonpositive_witness:
  "(0 :: int) \<le> 0 \<and>
   kFolds_list demo_shuffle (kFolds 0) [1, 2, 3 :: nat] (0 :: nat) = [] \<and>
   kFolds_next demo_shuffle (kFolds 0) [1, 2, 3 :: nat] (0 :: nat)
     = (None, Exhausted, demo_shuffle [1, 2, 3] 0) \<and>
   parse_args (demo_cmdline\<lparr>opt_cv := Some 0\<rparr>) = Inr (demo_args\<lparr>args_cv := 0\<rparr>) \<and>
   main demo_ext (demo_cmdline\<lparr>opt_cv := Some 0\<rparr>) \<lparr>rng = 0, env = 0\<rparr>
     = (Inr (np_mean demo_ext []), \<lparr>rng = 8, env = 0\<rparr>)"
proof -
  have k: "(0 :: int) \<le> 0" by simp
  note t = kFolds_nonpositive[where k = 0 and shuffle = demo_shuffle and seq = "[1, 2, 3 :: nat]"
      and w = "0 :: nat" and ext = demo_ext and args = "demo_args\<lparr>args_cv := 0\<rparr>"
      and cl = "demo_cmdline\<lparr>opt_cv := Some 0\<rparr>" and ?w0.0 = "\<lparr>rng = 0, env = 0\<rparr>"
      and ?w1.0 = "\<lparr>rng = 7, env = 0\<rparr>" and rawRatings = demo_ratings and RC = "\<lambda>raw. raw"
      and ?e1.0 = 0, OF k]
  have c: "args_cv (demo_args\<lparr>args_cv := 0\<rparr>) = 0" by simp
  have s: "args_seed (demo_args\<lparr>args_cv := 0\<rparr>) = Some 7" by (simp add: demo_args_def)
  have f: "\<not> (truthy (args_trainFile (demo_args\<lparr>args_cv := 0\<rparr>)) \<and>
      truthy (args_testFile (demo_args\<lparr>args_cv := 0\<rparr>)))"
    by (simp add: demo_args_def truthy_def)
  have e: "ensure_datasets demo_ext (rd_seed demo_ext (args_seed (demo_args\<lparr>args_cv := 0\<rparr>))
      \<lparr>rng = 0, env = 0\<rparr>) = (Inr (), \<lparr>rng = 7, env = 0\<rparr>)"
    by (simp only: s demo_ensure)
  have g: "getRawRatings demo_ext (args_dataset (demo_args\<lparr>args_cv := 0\<rparr>)) None
      (env \<lparr>rng = 7 :: nat, env = 0 :: nat\<rparr>) = (Inr (demo_ratings, \<lambda>raw. raw), 0)"
    by (simp add: demo_getRawRatings)
  have w: "\<lparr>rng = 7 :: nat, env = 0 :: nat\<rparr>\<lparr>env := 0,
      rng := snd (rd_shuffle demo_ext demo_ratings (rng \<lparr>rng = 7 :: nat, env = 0 :: nat\<rparr>))\<rparr>
      = \<lparr>rng = 8, env = 0\<rparr>"
    by (simp add: demo_ext_def demo_shuffle_def)
  from t demo_parse_cv0 c f e g
  have "main demo_ext (demo_cmdline\<lparr>opt_cv := Some 0\<rparr>) \<lparr>rng = 0, env = 0\<rparr>
     = (Inr (np_mean demo_ext []), \<lparr>rng = 7 :: nat, env = 0 :: nat\<rparr>\<lparr>env := 0,
      rng := snd (rd_shuffle demo_ext demo_ratings (rng \<lparr>rng = 7 :: nat, env = 0 :: nat\<rparr>))\<rparr>)"
    by blast
  then have m: "main demo_ext (demo_cmdline\<lparr>opt_cv := Some 0\<rparr>) \<lparr>rng = 0, env = 0\<rparr>
     = (Inr (np_mean demo_ext []), \<lparr>rng = 8, env = 0\<rparr>)"
    by (simp only: w)
  from t have a: "kFolds_list demo_shuffle (kFolds 0) [1, 2, 3 :: nat] (0 :: nat) = []"
    by (rule conjunct1)
  from t have b: "kFolds_next demo_shuffle (kFolds 0) [1, 2, 3 :: nat] (0 :: nat)
     = (None, Exhausted, demo_shuffle [1, 2, 3] 0)"
    by blast
  from k a b demo_parse_cv0 m show ?thesis
    by (intro conjI)
qed


subsection \<open>The seed fixes the folds, and a failing fold ends the run\<close>

lemma cv_loop_fold_fails:
  "kFolds_next (rd_shuffle ext) g seq (rng w) = (Some (trainSet, testSet), g', seq', r') \<Longrightarrow>
   getRmse ext args RC trainSet testSet (w\<lparr>rng := r'\<rparr>) = (Inl e, wb) \<Longrightarrow>
   cv_loop ext args RC g seq rmses w = (Inl e, wb)"
  by (simp add: cv_loop.simps[of ext args RC g seq rmses w])

lemma eval_folds_fails:
  "eval_folds ext args RC fs1 rmses w = (Inr rs, wa) \<Longrightarrow>
   getRmse ext args RC trainSet testSet wa = (Inl e, wb) \<Longrightarrow>
   eval_folds ext args RC (fs1 @ (trainSet, testSet) # fs2) rmses w = (Inl e, wb)"
  by (simp add: eval_folds_append)

lemma main_cv_fails:
  "parse_args cl = Inr args \<Longrightarrow>
   \<not> (truthy (args_trainFile args) \<and> truthy (args_testFile args)) \<Longrightarrow>
   ensure_datasets ext (rd_seed ext (args_seed args) w0) = (Inr (), w1) \<Longrightarrow>
   run_cv ext args w1 = (Inl e, wb) \<Longrightarrow>
   main ext cl w0 = (Inl e, wb)"
  by (auto simp: main_def run_def then_do_def)

lemma main_cv_loop:
  assumes "parse_args cl = Inr args"
    and "\<not> (truthy (args_trainFile args) \<and> truthy (args_testFile args))"
    and "ensure_datasets ext (rd_seed ext (args_seed args) w) = (Inr (), wa)"
    and "getRawRatings ext (args_dataset args) None (env wa) = (Inr (rawRatings, RC), e1)"
  shows "main ext cl w =
     then_do (cv_loop ext args RC (kFolds (args_cv args)) rawRatings [])
       (\<lambda>rmses. ok (np_mean ext rmses)) (wa\<lparr>env := e1\<rparr>)"
  using assms by (auto simp: main_def run_def run_cv_def then_do_def on_env_def)

lemma seeded_loop_state:
  assumes "args_seed args = Some n"
    and "ensure_datasets ext (rd_seed ext (args_seed args) w) = (Inr (), wa)"
  shows "rng (wa\<lparr>env := e1\<rparr>) = random_seed_int ext n"
  using ensure_datasets_rng[OF assms(2)] assms(1) by (simp add: rd_seed_def)

lemma main_cv_seeded:
  assumes "parse_args cl = Inr args"
    and "args_seed args = Some n"
    and "\<not> (truthy (args_trainFile args) \<and> truthy (args_testFile args))"
    and "ensure_datasets ext (rd_seed ext (args_seed args) w) = (Inr (), wa)"
    and "getRawRatings ext (args_dataset args) None (env wa) = (Inr (rawRatings, RC), e1)"
  shows "main ext cl w =
     then_do (eval_folds ext args RC
                (kFolds_list (rd_shuffle ext) (kFolds (args_cv args)) rawRatings
                   (random_seed_int ext n)) [])
       (\<lambda>rmses. ok (np_mean ext rmses))
       (wa\<lparr>env := e1, rng := snd (rd_shuffle ext rawRatings (random_seed_int ext n))\<rparr>)"
proof -
  have r: "rng (wa\<lparr>env := e1\<rparr>) = random_seed_int ext n"
    by (rule seeded_loop_state[OF assms(2,4)])
  show ?thesis
    unfolding main_cv_loop[OF assms(1,3,4,5)]
    by (simp add: then_do_def cv_loop_kFolds r)
qed

text \<open>
  C7. Take two runs of \<^verbatim>\<open>main\<close> in cross-validation mode with the same command line,
  whose \<^verbatim>\<open>-seed\<close> is an integer \<open>n\<close>, started in any two process-wide states, and
  in which \<^verbatim>\<open>getRawRatings\<close> returns the same list of ratings. In both runs
  \<^verbatim>\<open>main\<close> enters its loop over \<^verbatim>\<open>kFolds(rawRatings, args.cv)\<close> with the generator
  of random numbers in the state that \<^verbatim>\<open>rd.seed(n)\<close> has set, so the first \<^verbatim>\<open>next\<close>
  shuffles alike and the generator yields the same folds in the same order; each run
  is the evaluation, in order, of one and the same list of folds, which depends on the
  seed, the ratings and the fold count only. The driver calls \<^verbatim>\<open>getRmse\<close> once for a
  fold and catches nothing: when the call raises, the loop ends with that exception
  and the state the call left, the later folds are not evaluated, and \<^verbatim>\<open>main\<close> ends
  with the same exception.
\<close>

theorem seeded_folds_and_failures:
  "(parse_args cl = Inr args \<longrightarrow> args_seed args = Some n \<longrightarrow>
    \<not> (truthy (args_trainFile args) \<and> truthy (args_testFile args)) \<longrightarrow>
    ensure_datasets ext (rd_seed ext (args_seed args) w1) = (Inr (), wa1) \<longrightarrow>
    getRawRatings ext (args_dataset args) None (env wa1) = (Inr (rawRatings, RC1), e1) \<longrightarrow>
    ensure_datasets ext (rd_seed ext (args_seed args) w2) = (Inr (), wa2) \<longrightarrow>
    getRawRatings ext (args_dataset args) None (env wa2) = (Inr (rawRatings, RC2), e2) \<longrightarrow>
      main ext cl w1 =
        then_do (cv_loop ext args RC1 (kFolds (args_cv args)) rawRatings [])
          (\<lambda>rmses. ok (np_mean ext rmses)) (wa1\<lparr>env := e1\<rparr>) \<and>
      main ext cl w2 =
        then_do (cv_loop ext args RC2 (kFolds (args_cv args)) rawRatings [])
          (\<lambda>rmses. ok (np_mean ext rmses)) (wa2\<lparr>env := e2\<rparr>) \<and>
      rng (wa1\<lparr>env := e1\<rparr>) = random_seed_int ext n \<and>
      rng (wa2\<lparr>env := e2\<rparr>) = random_seed_int ext n \<and>
      kFolds_next (rd_shuffle ext) (kFolds (args_cv args)) rawRatings (rng (wa1\<lparr>env := e1\<rparr>)) =
        kFolds_next (rd_shuffle ext) (kFolds (args_cv args)) rawRatings (rng (wa2\<lparr>env := e2\<rparr>)) \<and>
      kFolds_list (rd_shuffle ext) (kFolds (args_cv args)) rawRatings (rng (wa1\<lparr>env := e1\<rparr>)) =
        kFolds_list (rd_shuffle ext) (kFolds (args_cv args)) rawRatings (rng (wa2\<lparr>env := e2\<rparr>)) \<and>
      main ext cl w1 =
        then_do (eval_folds ext args RC1
                   (kFolds_list (rd_shuffle ext) (kFolds (args_cv args)) rawRatings
                      (random_seed_int ext n)) [])
          (\<lambda>rmses. ok (np_mean ext rmses))
          (wa1\<lparr>env := e1, rng := snd (rd_shuffle ext rawRatings (random_seed_int ext n))\<rparr>) \<and>
      main ext cl w2 =
        then_do (eval_folds ext args RC2
                   (kFolds_list (rd_shuffle ext) (kFolds (args_cv args)) rawRatings
                      (random_seed_int ext n)) [])
          (\<lambda>rmses. ok (np_mean ext rmses))
          (wa2\<lparr>env := e2, rng := snd (rd_shuffle ext rawRatings (random_seed_int ext n))\<rparr>)) \<and>
   (\<forall>g rawRatings w trainSet testSet g' seq' r' rmses e wb.
      kFolds_next (rd_shuffle ext) g rawRatings (rng w) = (Some (trainSet, testSet), g', seq', r') \<longrightarrow>
      getRmse ext args RC trainSet testSet (w\<lparr>rng := r'\<rparr>) = (Inl e, wb) \<longrightarrow>
      cv_loop ext args RC g rawRatings rmses w = (Inl e, wb)) \<and>
   (\<forall>fs1 fs2 rmses w rs wa trainSet testSet e wb.
      eval_folds ext args RC fs1 rmses w = (Inr rs, wa) \<longrightarrow>
      getRmse ext args RC trainSet testSet wa = (Inl e, wb) \<longrightarrow>
      eval_folds ext args RC (fs1 @ (trainSet, testSet) # fs2) rmses w = (Inl e, wb)) \<and>
   (\<forall>cl w0 w e wb.
      parse_args cl = Inr args \<longrightarrow>
      \<not> (truthy (args_trainFile args) \<and> truthy (args_testFile args)) \<longrightarrow>
      ensure_datasets ext (rd_seed ext (args_seed args) w0) = (Inr (), w) \<longrightarrow>
      run_cv ext args w = (Inl e, wb) \<longrightarrow>
      main ext cl w0 = (Inl e, wb))"
proof -
  have a: "main ext cl w1 =
        then_do (cv_loop ext args RC1 (kFolds (args_cv args)) rawRatings [])
          (\<lambda>rmses. ok (np_mean ext rmses)) (wa1\<lparr>env := e1\<rparr>) \<and>
      main ext cl w2 =
        then_do (cv_loop ext args RC2 (kFolds (args_cv args)) rawRatings [])
          (\<lambda>rmses. ok (np_mean ext rmses)) (wa2\<lparr>env := e2\<rparr>) \<and>
      rng (wa1\<lparr>env := e1\<rparr>) = random_seed_int ext n \<and>
      rng (wa2\<lparr>env := e2\<rparr>) = random_seed_int ext n \<and>
      kFolds_next (rd_shuffle ext) (kFolds (args_cv args)) rawRatings (rng (wa1\<lparr>env := e1\<rparr>)) =
        kFolds_next (rd_shuffle ext) (kFolds (args_cv args)) rawRatings (rng (wa2\<lparr>env := e2\<rparr>)) \<and>
      kFolds_list (rd_shuffle ext) (kFolds (args_cv args)) rawRatings (rng (wa1\<lparr>env := e1\<rparr>)) =
        kFolds_list (rd_shuffle ext) (kFolds (args_cv args)) rawRatings (rng (wa2\<lparr>env := e2\<rparr>)) \<and>
      main ext cl w1 =
        then_do (eval_folds ext args RC1
                   (kFolds_list (rd_shuffle ext) (kFolds (args_cv args)) rawRatings
                      (random_seed_int ext n)) [])
          (\<lambda>rmses. ok (np_mean ext rmses))
          (wa1\<lparr>env := e1, rng := snd (rd_shuffle ext rawRatings (random_seed_int ext n))\<rparr>) \<and>
      main ext cl w2 =
        then_do (eval_folds ext args RC2
                   (kFolds_list (rd_shuffle ext) (kFolds (args_cv args)) rawRatings
                      (random_seed_int ext n)) [])
          (\<lambda>rmses. ok (np_mean ext rmses))
          (wa2\<lparr>env := e2, rng := snd (rd_shuffle ext rawRatings (random_seed_int ext n))\<rparr>)"
    if h: "parse_args cl = Inr args" "args_seed args = Some n"
      "\<not> (truthy (args_trainFile args) \<and> truthy (args_testFile args))"
      "ensure_datasets ext (rd_seed ext (args_seed args) w1) = (Inr (), wa1)"
      "getRawRatings ext (args_dataset args) None (env wa1) = (Inr (rawRatings, RC1), e1)"
      "ensure_datasets ext (rd_seed ext (args_seed args) w2) = (Inr (), wa2)"
      "getRawRatings ext (args_dataset args) None (env wa2) = (Inr (rawRatings, RC2), e2)"
  proof -
    note l1 = main_cv_loop[OF h(1,3,4,5)]
    note l2 = main_cv_loop[OF h(1,3,6,7)]
    note r1 = seeded_loop_state[OF h(2,4), of e1]
    note r2 = seeded_loop_state[OF h(2,6), of e2]
    note m1 = main_cv_seeded[OF h(1,2,3,4,5)]
    note m2 = main_cv_seeded[OF h(1,2,3,6,7)]
    from r1 r2 have n: "kFolds_next (rd_shuffle ext) (kFolds (args_cv args)) rawRatings (rng (wa1\<lparr>env := e1\<rparr>)) =
        kFolds_next (rd_shuffle ext) (kFolds (args_cv args)) rawRatings (rng (wa2\<lparr>env := e2\<rparr>))"
      by (simp only:)
    from r1 r2 have k: "kFolds_list (rd_shuffle ext) (kFolds (args_cv args)) rawRatings (rng (wa1\<lparr>env := e1\<rparr>)) =
        kFolds_list (rd_shuffle ext) (kFolds (args_cv args)) rawRatings (rng (wa2\<lparr>env := e2\<rparr>))"
      by (simp only:)
    from l1 l2 r1 r2 n k m1 m2 show ?thesis
      by (intro conjI)
  qed
  have b: "\<forall>g rawRatings w trainSet testSet g' seq' r' rmses e wb.
      kFolds_next (rd_shuffle ext) g rawRatings (rng w) = (Some (trainSet, testSet), g', seq', r') \<longrightarrow>
      getRmse ext args RC trainSet testSet (w\<lparr>rng := r'\<rparr>) = (Inl e, wb) \<longrightarrow>
      cv_loop ext args RC g rawRatings rmses w = (Inl e, wb)"
    by (intro allI impI) (rule cv_loop_fold_fails)
  have c: "\<forall>fs1 fs2 rmses w rs wa trainSet testSet e wb.
      eval_folds ext args RC fs1 rmses w = (Inr rs, wa) \<longrightarrow>
      getRmse ext args RC trainSet testSet wa = (Inl e, wb) \<longrightarrow>
      eval_folds ext args RC (fs1 @ (trainSet, testSet) # fs2) rmses w = (Inl e, wb)"
    by (intro allI impI) (rule eval_folds_fails)
  have d: "\<forall>cl w0 w e wb.
      parse_args cl = Inr args \<longrightarrow>
      \<not> (truthy (args_trainFile args) \<and> truthy (args_testFile args)) \<longrightarrow>
      ensure_datasets ext (rd_seed ext (args_seed args) w0) = (Inr (), w) \<longrightarrow>
      run_cv ext args w = (Inl e, wb) \<longrightarrow>
      main ext cl w0 = (Inl e, wb)"
    by (intro allI impI) (rule main_cv_fails)
  show ?thesis
  proof (intro conjI)
    show "\<forall>g rawRatings w trainSet testSet g' seq' r' rmses e wb.
      kFolds_next (rd_shuffle ext) g rawRatings (rng w) = (Some (trainSet, testSet), g', seq', r') \<longrightarrow>
      getRmse ext args RC trainSet testSet (w\<lparr>rng := r'\<rparr>) = (Inl e, wb) \<longrightarrow>
      cv_loop ext args RC g rawRatings rmses w = (Inl e, wb)"
      by (rule b)
  qed (intro impI, rule a, assumption+, rule c, rule d)
qed



lemma demo_parse_cv1: "parse_args (demo_cmdline\<lparr>opt_cv := Some 1\<rparr>) = Inr (demo_args\<lparr>args_cv := 1\<rparr>)"
  by code_simp

lemma demo_mode_cv1:
  "\<not> (truthy (args_trainFile (demo_args\<lparr>args_cv := 1\<rparr>)) \<and>
      truthy (args_testFile (demo_args\<lparr>args_cv := 1\<rparr>)))"
  by code_simp

lemma demo_ensure_cv1:
  "ensure_datasets demo_ext (rd_seed demo_ext (args_seed (demo_args\<lparr>args_cv := 1\<rparr>))
      \<lparr>rng = 0, env = 0\<rparr>) = (Inr (), \<lparr>rng = 7, env = 0\<rparr>)"
  by code_simp

lemma demo_run_cv1:
  "run_cv demo_ext (demo_args\<lparr>args_cv := 1\<rparr>) \<lparr>rng = 7, env = 0\<rparr>
     = (Inl (Raised ''no ratings''), \<lparr>rng = 8, env = 0\<rparr>)"
  by code_simp

lemma demo_eval_none:
  "eval_folds demo_ext demo_args (\<lambda>raw. raw) [] [] \<lparr>rng = 0, env = 0\<rparr> = (Inr [], \<lparr>rng = 0, env = 0\<rparr>)"
  by simp

lemma demo_getRmse_fails:
  "getRmse demo_ext demo_args (\<lambda>raw. raw) [(''u1'', ''i1'', 5, 0)] [(''u9'', ''i9'', 1, 0)]
     \<lparr>rng = 0, env = 0\<rparr> = (Inl (Raised ''no predictions''), \<lparr>rng = 0, env = 4\<rparr>)"
  by code_simp

lemma demo_seed: "args_seed demo_args = Some 7"
  by (simp add: demo_args_def)

lemma demo_ensure_first:
  "ensure_datasets demo_ext (rd_seed demo_ext (args_seed demo_args) \<lparr>rng = 0, env = 0\<rparr>)
     = (Inr (), \<lparr>rng = 7, env = 0\<rparr>)"
  by code_simp

lemma demo_ensure_second:
  "ensure_datasets demo_ext (rd_seed demo_ext (args_seed demo_args) \<lparr>rng = 5, env = 9\<rparr>)
     = (Inr (), \<lparr>rng = 7, env = 9\<rparr>)"
  by code_simp

lemma demo_load_first:
  "getRawRatings demo_ext (args_dataset demo_args) None (env \<lparr>rng = 7 :: nat, env = 0 :: nat\<rparr>)
     = (Inr (demo_ratings, \<lambda>raw. raw), 0)"
  by (simp add: demo_getRawRatings)

lemma demo_load_second:
  "getRawRatings demo_ext (args_dataset demo_args) None (env \<lparr>rng = 7 :: nat, env = 9 :: nat\<rparr>)
     = (Inr (demo_ratings, \<lambda>raw. raw), 9)"
  by (simp add: demo_getRawRatings)

lemma demo_main_second:
  "main demo_ext demo_cmdline \<lparr>rng = 5, env = 9\<rparr> = (Inr 4, \<lparr>rng = 8, env = 17\<rparr>)"
  by code_simp

lemma demo_seeded_folds:
  "kFolds_list (rd_shuffle demo_ext) (kFolds (args_cv demo_args)) demo_ratings
     (random_seed_int demo_ext 7) =
   [([(''u2'', ''i2'', 4, 1), (''u1'', ''i1'', 5, 0)], [(''u2'', ''i1'', 1, 3), (''u1'', ''i2'', 3, 2)]),
    ([(''u2'', ''i1'', 1, 3), (''u1'', ''i2'', 3, 2)], [(''u2'', ''i2'', 4, 1), (''u1'', ''i1'', 5, 0)])]"
  by code_simp

theorem seeded_folds_and_failures_witness:
  "parse_args demo_cmdline = Inr demo_args \<and> args_seed demo_args = Some 7 \<and>
   main demo_ext demo_cmdline \<lparr>rng = 0, env = 0\<rparr> = (Inr 4, \<lparr>rng = 8, env = 8\<rparr>) \<and>
   main demo_ext demo_cmdline \<lparr>rng = 5, env = 9\<rparr> = (Inr 4, \<lparr>rng = 8, env = 17\<rparr>) \<and>
   rng (\<lparr>rng = 7 :: nat, env = 0 :: nat\<rparr>\<lparr>env := 0\<rparr>) = random_seed_int demo_ext 7 \<and>
   rng (\<lparr>rng = 7 :: nat, env = 9 :: nat\<rparr>\<lparr>env := 9\<rparr>) = random_seed_int demo_ext 7 \<and>
   kFolds_list (rd_shuffle demo_ext) (kFolds (args_cv demo_args)) demo_ratings
       (rng (\<lparr>rng = 7 :: nat, env = 0 :: nat\<rparr>\<lparr>env := 0\<rparr>)) =
     kFolds_list (rd_shuffle demo_ext) (kFolds (args_cv demo_args)) demo_ratings
       (rng (\<lparr>rng = 7 :: nat, env = 9 :: nat\<rparr>\<lparr>env := 9\<rparr>)) \<and>
   kFolds_list (rd_shuffle demo_ext) (kFolds (args_cv demo_args)) demo_ratings
     (random_seed_int demo_ext 7) =
   [([(''u2'', ''i2'', 4, 1), (''u1'', ''i1'', 5, 0)], [(''u2'', ''i1'', 1, 3), (''u1'', ''i2'', 3, 2)]),
    ([(''u2'', ''i1'', 1, 3), (''u1'', ''i2'', 3, 2)], [(''u2'', ''i2'', 4, 1), (''u1'', ''i1'', 5, 0)])] \<and>
   main demo_ext demo_cmdline \<lparr>rng = 0, env = 0\<rparr> =
     then_do (eval_folds demo_ext demo_args (\<lambda>raw. raw)
                (kFolds_list (rd_shuffle demo_ext) (kFolds (args_cv demo_args)) demo_ratings
                   (random_seed_int demo_ext 7)) [])
       (\<lambda>rmses. ok (np_mean demo_ext rmses))
       (\<lparr>rng = 7, env = 0\<rparr>\<lparr>env := 0,
          rng := snd (rd_shuffle demo_ext demo_ratings (random_seed_int demo_ext 7))\<rparr>) \<and>
   main demo_ext demo_cmdline \<lparr>rng = 5, env = 9\<rparr> =
     then_do (eval_folds demo_ext demo_args (\<lambda>raw. raw)
                (kFolds_list (rd_shuffle demo_ext) (kFolds (args_cv demo_args)) demo_ratings
                   (random_seed_int demo_ext 7)) [])
       (\<lambda>rmses. ok (np_mean demo_ext rmses))
       (\<lparr>rng = 7, env = 9\<rparr>\<lparr>env := 9,
          rng := snd (rd_shuffle demo_ext demo_ratings (random_seed_int demo_ext 7))\<rparr>) \<and>
   eval_folds demo_ext demo_args (\<lambda>raw. raw) [] [] \<lparr>rng = 0, env = 0\<rparr> = (Inr [], \<lparr>rng = 0, env = 0\<rparr>) \<and>
   getRmse demo_ext demo_args (\<lambda>raw. raw) [(''u1'', ''i1'', 5, 0)] [(''u9'', ''i9'', 1, 0)]
     \<lparr>rng = 0, env = 0\<rparr> = (Inl (Raised ''no predictions''), \<lparr>rng = 0, env = 4\<rparr>) \<and>
   eval_folds demo_ext demo_args (\<lambda>raw. raw)
     ([] @ ([(''u1'', ''i1'', 5, 0)], [(''u9'', ''i9'', 1, 0)])
         # [([(''u1'', ''i1'', 5, 0)], [(''u1'', ''i1'', 4, 0)])]) [] \<lparr>rng = 0, env = 0\<rparr>
     = (Inl (Raised ''no predictions''), \<lparr>rng = 0, env = 4\<rparr>) \<and>
   parse_args (demo_cmdline\<lparr>opt_cv := Some 1\<rparr>) = Inr (demo_args\<lparr>args_cv := 1\<rparr>) \<and>
   run_cv demo_ext (demo_args\<lparr>args_cv := 1\<rparr>) \<lparr>rng = 7, env = 0\<rparr>
     = (Inl (Raised ''no ratings''), \<lparr>rng = 8, env = 0\<rparr>) \<and>
   main demo_ext (demo_cmdline\<lparr>opt_cv := Some 1\<rparr>) \<lparr>rng = 0, env = 0\<rparr>
     = (Inl (Raised ''no ratings''), \<lparr>rng = 8, env = 0\<rparr>)"
proof -
  note t = seeded_folds_and_failures[where ext = demo_ext and cl = demo_cmdline and args = demo_args
      and n = 7 and ?w1.0 = "\<lparr>rng = 0, env = 0\<rparr>" and ?wa1.0 = "\<lparr>rng = 7, env = 0\<rparr>"
      and ?e1.0 = 0 and ?w2.0 = "\<lparr>rng = 5, env = 9\<rparr>" and ?wa2.0 = "\<lparr>rng = 7, env = 9\<rparr>"
      and ?e2.0 = 9 and rawRatings = demo_ratings and ?RC1.0 = "\<lambda>raw. raw"
      and ?RC2.0 = "\<lambda>raw. raw" and RC = "\<lambda>raw. raw"]
  note u = seeded_folds_and_failures[where ext = demo_ext and cl = demo_cmdline
      and args = "demo_args\<lparr>args_cv := 1\<rparr>"
      and n = 7 and ?w1.0 = "\<lparr>rng = 0, env = 0\<rparr>" and ?wa1.0 = "\<lparr>rng = 7, env = 0\<rparr>"
      and ?e1.0 = 0 and ?w2.0 = "\<lparr>rng = 5, env = 9\<rparr>" and ?wa2.0 = "\<lparr>rng = 7, env = 9\<rparr>"
      and ?e2.0 = 9 and rawRatings = demo_ratings and ?RC1.0 = "\<lambda>raw. raw"
      and ?RC2.0 = "\<lambda>raw. raw" and RC = "\<lambda>raw. raw"]
  from t demo_parse demo_seed demo_mode demo_ensure_first demo_load_first demo_ensure_second
    demo_load_second
  have a: "rng (\<lparr>rng = 7 :: nat, env = 0 :: nat\<rparr>\<lparr>env := 0\<rparr>) = random_seed_int demo_ext 7"
    "rng (\<lparr>rng = 7 :: nat, env = 9 :: nat\<rparr>\<lparr>env := 9\<rparr>) = random_seed_int demo_ext 7"
    "kFolds_list (rd_shuffle demo_ext) (kFolds (args_cv demo_args)) demo_ratings
       (rng (\<lparr>rng = 7 :: nat, env = 0 :: nat\<rparr>\<lparr>env := 0\<rparr>)) =
     kFolds_list (rd_shuffle demo_ext) (kFolds (args_cv demo_args)) demo_ratings
       (rng (\<lparr>rng = 7 :: nat, env = 9 :: nat\<rparr>\<lparr>env := 9\<rparr>))"
    "main demo_ext demo_cmdline \<lparr>rng = 0, env = 0\<rparr> =
     then_do (eval_folds demo_ext demo_args (\<lambda>raw. raw)
                (kFolds_list (rd_shuffle demo_ext) (kFolds (args_cv demo_args)) demo_ratings
                   (random_seed_int demo_ext 7)) [])
       (\<lambda>rmses. ok (np_mean demo_ext rmses))
       (\<lparr>rng = 7, env = 0\<rparr>\<lparr>env := 0,
          rng := snd (rd_shuffle demo_ext demo_ratings (random_seed_int demo_ext 7))\<rparr>)"
    "main demo_ext demo_cmdline \<lparr>rng = 5, env = 9\<rparr> =
     then_do (eval_folds demo_ext demo_args (\<lambda>raw. raw)
                (kFolds_list (rd_shuffle demo_ext) (kFolds (args_cv demo_args)) demo_ratings
                   (random_seed_int demo_ext 7)) [])
       (\<lambda>rmses. ok (np_mean demo_ext rmses))
       (\<lparr>rng = 7, env = 9\<rparr>\<lparr>env := 9,
          rng := snd (rd_shuffle demo_ext demo_ratings (random_seed_int demo_ext 7))\<rparr>)"
    by blast+
  from t demo_eval_none demo_getRmse_fails
  have b: "eval_folds demo_ext demo_args (\<lambda>raw. raw)
     ([] @ ([(''u1'', ''i1'', 5, 0)], [(''u9'', ''i9'', 1, 0)])
         # [([(''u1'', ''i1'', 5, 0)], [(''u1'', ''i1'', 4, 0)])]) [] \<lparr>rng = 0, env = 0\<rparr>
     = (Inl (Raised ''no predictions''), \<lparr>rng = 0, env = 4\<rparr>)"
    by blast
  from u demo_parse_cv1 demo_mode_cv1 demo_ensure_cv1 demo_run_cv1
  have c: "main demo_ext (demo_cmdline\<lparr>opt_cv := Some 1\<rparr>) \<lparr>rng = 0, env = 0\<rparr>
     = (Inl (Raised ''no ratings''), \<lparr>rng = 8, env = 0\<rparr>)"
    by blast
  from demo_parse demo_seed demo_main demo_main_second a demo_seeded_folds demo_eval_none
    demo_getRmse_fails b demo_parse_cv1 demo_run_cv1 c
  show ?thesis
    by (intro conjI)
qed


subsection \<open>Test ratings with an unknown user or item\<close>

lemma id_index_from_dom: "dom (id_index_from m n xs) = dom m \<union> set xs"
  by (induction xs arbitrary: m n) (auto split: option.splits)

lemma id_index_None: "id_index xs x = None \<longleftrightarrow> x \<notin> set xs"
  using id_index_from_dom[of Map.empty 0 xs] by (auto simp: id_index_def)

lemma demo_TrainingData_unobserved:
  "demo_TrainingData rd = Inr td \<Longrightarrow>
     (rawToInnerIdUsers td u = None \<longleftrightarrow> u \<notin> (\<lambda>(u, i, r, ts). u) ` set rd) \<and>
     (rawToInnerIdItems td i = None \<longleftrightarrow> i \<notin> (\<lambda>(u, i, r, ts). i) ` set rd)"
  by (force simp: demo_TrainingData_def id_index_None split: if_splits)

lemma test_loop_skip_head:
  "rawToInnerIdUsers td u0 = None \<or> rawToInnerIdItems td i0 = None \<Longrightarrow>
     test_loop ext args td ((u0, i0, r0, ts) # rest) algo w = test_loop ext args td rest algo w"
  by (auto split: option.splits)

lemma test_loop_append:
  "test_loop ext args td (qs1 @ qs2) algo w =
     (case test_loop ext args td qs1 algo w of
        (Inl e, w') \<Rightarrow> (Inl e, w')
      | (Inr algo', w') \<Rightarrow> test_loop ext args td qs2 algo' w')"
  by (induction qs1 arbitrary: algo w) (auto split: option.splits prod.splits sum.splits)

text \<open>
  C3. A test rating whose raw user or raw item has no entry in the dictionaries of the
  fold's training data (it was not seen in training) is skipped by the loop of
  \<^verbatim>\<open>getRmse\<close>: the turn for it leaves the algorithm object and the state as they are
  (\<^verbatim>\<open>predict\<close> is not called, nothing is added to \<^verbatim>\<open>preds\<close>), raises nothing, and
  the loop goes on with the ratings that follow. Wherever such a rating stands in the
  test ratings, the loop does what it does without it.
\<close>

theorem test_loop_skips_unknown:
  assumes "rawToInnerIdUsers td u0 = None \<or> rawToInnerIdItems td i0 = None"
  shows "test_loop ext args td ((u0, i0, r0, ts) # rest) algo w = test_loop ext args td rest algo w \<and>
         test_loop ext args td (before @ (u0, i0, r0, ts) # rest) algo w =
           test_loop ext args td (before @ rest) algo w"
proof -
  note h = test_loop_skip_head[OF assms, of ext args r0 ts rest]
  have "test_loop ext args td (before @ (u0, i0, r0, ts) # rest) algo w =
      test_loop ext args td (before @ rest) algo w"
    unfolding test_loop_append[of ext args td before] h ..
  with h show ?thesis by (intro conjI)
qed

lemma demo_td_built: "demo_TrainingData [(''u1'', ''i1'', 5, 0)] = Inr demo_td"
  by (simp add: demo_TrainingData_def demo_td_def)

lemma demo_unknown_user: "rawToInnerIdUsers demo_td ''u9'' = None"
  by (simp add: demo_td_def id_index_def)

lemma demo_test_loop:
  "map_sum id preds (fst (test_loop demo_ext demo_args demo_td
      [(''u9'', ''i1'', 2, 0), (''u1'', ''i1'', 4, 1)] demo_algo \<lparr>rng = 0, env = 0\<rparr>))
     = Inr [(0, 0, 4, 3)]"
  by code_simp

theorem test_loop_skips_unknown_witness:
  "demo_TrainingData [(''u1'', ''i1'', 5, 0)] = Inr demo_td \<and>
   rawToInnerIdUsers demo_td ''u9'' = None \<and>
   test_loop demo_ext demo_args demo_td ((''u9'', ''i1'', 2, 0) # [(''u1'', ''i1'', 4, 1)])
       demo_algo \<lparr>rng = 0, env = 0\<rparr>
     = test_loop demo_ext demo_args demo_td [(''u1'', ''i1'', 4, 1)] demo_algo \<lparr>rng = 0, env = 0\<rparr> \<and>
   map_sum id preds (fst (test_loop demo_ext demo_args demo_td
      [(''u9'', ''i1'', 2, 0), (''u1'', ''i1'', 4, 1)] demo_algo \<lparr>rng = 0, env = 0\<rparr>))
     = Inr [(0, 0, 4, 3)]"
proof -
  from demo_unknown_user
  have h: "rawToInnerIdUsers demo_td ''u9'' = None \<or> rawToInnerIdItems demo_td ''i1'' = None" ..
  from test_loop_skips_unknown[OF h, of demo_ext demo_args 2 0 "[(''u1'', ''i1'', 4, 1)]" demo_algo
      "\<lparr>rng = 0, env = 0\<rparr>" "[]"]
  have "test_loop demo_ext demo_args demo_td ((''u9'', ''i1'', 2, 0) # [(''u1'', ''i1'', 4, 1)])
       demo_algo \<lparr>rng = 0, env = 0\<rparr>
     = test_loop demo_ext demo_args demo_td [(''u1'', ''i1'', 4, 1)] demo_algo \<lparr>rng = 0, env = 0\<rparr>"
    by (rule conjunct1)
  with demo_td_built demo_unknown_user demo_test_loop show ?thesis
    by (intro conjI)
qed

subsection \<open>The test ratings do not reach the training\<close>

lemma test_loop_query:
  "map query qs1 = map query qs2 \<Longrightarrow>
     test_loop ext args td qs1 algo w = test_loop ext args td qs2 algo w"
proof (induction qs1 arbitrary: qs2 algo w)
  case Nil
  then show ?case by simp
next
  case (Cons q qs1)
  then obtain q' qs2' where q: "qs2 = q' # qs2'" "query q = query q'" "map query qs1 = map query qs2'"
    by (cases qs2) auto
  obtain u i r ts where a: "q = (u, i, r, ts)" by (cases q)
  obtain u' i' r' ts' where b: "q' = (u', i', r', ts')" by (cases q')
  from q a b have e: "u' = u" "i' = i" "r' = r" by simp_all
  show ?case
    unfolding q a b e
    by (auto simp: Cons.IH[OF q(3)] split: option.splits prod.splits sum.splits)
qed

lemma getRmse_fit_eq:
  "getRmse_fit ext args RC trainSet testSet w =
     (case TrainingData ext (RC trainSet) of
        Inl e \<Rightarrow> (Inl e, w)
      | Inr td \<Rightarrow>
          then_do (clock ext) (\<lambda>trainStartTime.
          then_do (clock ext) (\<lambda>t.
          then_do (algo_new ext (args_algo args) td (args_itemBased args)
                     (args_method args) (args_sim args) (args_k args)) (\<lambda>algo.
          ok (td, RC testSet, t - trainStartTime, algo)))) w)"
  by (simp add: getRmse_fit_def Let_def then_do_def lift_result_def split: sum.splits)

lemma getRmse_fit_forget:
  "forget_reader (getRmse_fit ext args RC trainSet testSet1 w) =
   forget_reader (getRmse_fit ext args RC trainSet testSet2 w)"
  by (simp add: getRmse_fit_eq forget_reader_def then_do_def ok_def split: sum.splits prod.splits)

lemma getRmse_fit_td:
  "getRmse_fit ext args RC trainSet testSet w = (Inr (td, rd, tt, al), w1) \<Longrightarrow>
     TrainingData ext (RC trainSet) = Inr td \<and> rd = RC testSet"
  by (auto simp: getRmse_fit_eq then_do_def ok_def split: sum.splits prod.splits)

lemma getRmse_test_query:
  assumes "map query (reader_ratings ext rd1) = map query (reader_ratings ext rd2)"
  shows "getRmse_test ext args td rd1 tt = getRmse_test ext args td rd2 tt"
proof (rule ext)
  fix al
  have "test_loop ext args td (reader_ratings ext rd1) al = test_loop ext args td (reader_ratings ext rd2) al"
    by (rule ext) (rule test_loop_query[OF assms])
  then show "getRmse_test ext args td rd1 tt al = getRmse_test ext args td rd2 tt al"
    by (simp add: getRmse_test_def)
qed

lemma getRmse_tested_eq:
  "getRmse_tested ext args RC trainSet testSet w =
     (case TrainingData ext (RC trainSet) of
        Inl e \<Rightarrow> (Inl e, w)
      | Inr td \<Rightarrow>
          then_do (clock ext) (\<lambda>trainStartTime.
          then_do (clock ext) (\<lambda>t.
          then_do (algo_new ext (args_algo args) td (args_itemBased args)
                     (args_method args) (args_sim args) (args_k args)) (\<lambda>algo.
          getRmse_test ext args td (RC testSet) (t - trainStartTime) algo))) w)"
  by (simp add: getRmse_tested_def getRmse_fit_eq then_do_def ok_def split: sum.splits prod.splits)

lemma getRmse_tested_query:
  assumes "map query (reader_ratings ext (RC testSet1)) = map query (reader_ratings ext (RC testSet2))"
  shows "getRmse_tested ext args RC trainSet testSet1 w = getRmse_tested ext args RC trainSet testSet2 w"
  by (simp add: getRmse_tested_eq getRmse_test_query[OF assms] cong: sum.case_cong)

text \<open>
  C6. What \<^verbatim>\<open>getRmse\<close> builds before it tests (the training data, the training time,
  the algorithm object, and the state it leaves) is the same for any two test sets:
  the training data is \<^verbatim>\<open>TrainingData(ReaderClass(trainSet))\<close> and nothing else
  reaches it, neither the test set nor anything an earlier fold has built. Two test
  sets that ask the same queries (the same users, items and actual ratings, in the same
  order) and differ in anything else give the same algorithm object after testing,
  with the same \<^verbatim>\<open>preds\<close>, and the same result of \<^verbatim>\<open>getRmse\<close>.
\<close>

theorem training_independent_of_test:
  "forget_reader (getRmse_fit ext args RC trainSet testSet1 w) =
     forget_reader (getRmse_fit ext args RC trainSet testSet2 w) \<and>
   (\<forall>td rd tt al w1. getRmse_fit ext args RC trainSet testSet1 w = (Inr (td, rd, tt, al), w1) \<longrightarrow>
      TrainingData ext (RC trainSet) = Inr td) \<and>
   (map query (reader_ratings ext (RC testSet1)) = map query (reader_ratings ext (RC testSet2)) \<longrightarrow>
      getRmse_tested ext args RC trainSet testSet1 w = getRmse_tested ext args RC trainSet testSet2 w \<and>
      getRmse ext args RC trainSet testSet1 w = getRmse ext args RC trainSet testSet2 w)"
  using getRmse_fit_forget[of ext args RC trainSet testSet1 w testSet2]
    getRmse_fit_td[of ext args RC trainSet testSet1 w]
    getRmse_tested_query[of ext RC testSet1 testSet2 args trainSet w]
  by (auto simp: getRmse_def then_do_def)

lemma demo_same_queries:
  "map query (reader_ratings demo_ext [(''u1'', ''i1'', 4, 1)]) =
   map query (reader_ratings demo_ext [(''u1'', ''i1'', 4, 7)])"
  by (simp add: demo_ext_def)

lemma demo_getRmse_one:
  "getRmse demo_ext demo_args (\<lambda>raw. raw) [(''u1'', ''i1'', 5, 0)] [(''u1'', ''i1'', 4, 1)]
     \<lparr>rng = 0, env = 0\<rparr> = (Inr 1, \<lparr>rng = 0, env = 4\<rparr>)"
  by code_simp

theorem training_independent_of_test_witness:
  "map query (reader_ratings demo_ext [(''u1'', ''i1'', 4, 1)]) =
     map query (reader_ratings demo_ext [(''u1'', ''i1'', 4, 7)]) \<and>
   getRmse demo_ext demo_args (\<lambda>raw. raw) [(''u1'', ''i1'', 5, 0)] [(''u1'', ''i1'', 4, 1)]
     \<lparr>rng = 0, env = 0\<rparr> = (Inr 1, \<lparr>rng = 0, env = 4\<rparr>) \<and>
   getRmse demo_ext demo_args (\<lambda>raw. raw) [(''u1'', ''i1'', 5, 0)] [(''u1'', ''i1'', 4, 1)]
     \<lparr>rng = 0, env = 0\<rparr> =
   getRmse demo_ext demo_args (\<lambda>raw. raw) [(''u1'', ''i1'', 5, 0)] [(''u1'', ''i1'', 4, 7)]
     \<lparr>rng = 0, env = 0\<rparr> \<and>
   forget_reader (getRmse_fit demo_ext demo_args (\<lambda>raw. raw) [(''u1'', ''i1'', 5, 0)]
     [(''u1'', ''i1'', 4, 1)] \<lparr>rng = 0, env = 0\<rparr>) =
   forget_reader (getRmse_fit demo_ext demo_args (\<lambda>raw. raw) [(''u1'', ''i1'', 5, 0)]
     [(''u1'', ''i1'', 4, 7)] \<lparr>rng = 0, env = 0\<rparr>)"
proof -
  note t = training_independent_of_test[where ext = demo_ext and args = demo_args
      and RC = "\<lambda>raw. raw" and trainSet = "[(''u1'', ''i1'', 5, 0)]"
      and ?testSet1.0 = "[(''u1'', ''i1'', 4, 1)]" and ?testSet2.0 = "[(''u1'', ''i1'', 4, 7)]"
      and w = "\<lparr>rng = 0, env = 0\<rparr>"]
  from t have a: "forget_reader (getRmse_fit demo_ext demo_args (\<lambda>raw. raw) [(''u1'', ''i1'', 5, 0)]
     [(''u1'', ''i1'', 4, 1)] \<lparr>rng = 0, env = 0\<rparr>) =
   forget_reader (getRmse_fit demo_ext demo_args (\<lambda>raw. raw) [(''u1'', ''i1'', 5, 0)]
     [(''u1'', ''i1'', 4, 7)] \<lparr>rng = 0, env = 0\<rparr>)"
    by (rule conjunct1)
  from t demo_same_queries
  have b: "getRmse demo_ext demo_args (\<lambda>raw. raw) [(''u1'', ''i1'', 5, 0)] [(''u1'', ''i1'', 4, 1)]
     \<lparr>rng = 0, env = 0\<rparr> =
   getRmse demo_ext demo_args (\<lambda>raw. raw) [(''u1'', ''i1'', 5, 0)] [(''u1'', ''i1'', 4, 7)]
     \<lparr>rng = 0, env = 0\<rparr>"
    by blast
  from demo_same_queries demo_getRmse_one b a show ?thesis
    by (intro conjI)
qed

subsection \<open>What the reporting finds after testing\<close>

lemma test_loop_preds:
  "predict_appends ext \<Longrightarrow> test_loop ext args td qs al w = (Inr al', w') \<Longrightarrow>
     \<exists>ps. preds al' = preds al @ ps \<and> length ps = length (filter (known td) qs)"
proof (induction qs arbitrary: al w)
  case Nil
  then show ?case by simp
next
  case (Cons q qs)
  obtain u0 i0 r0 ts where q: "q = (u0, i0, r0, ts)" by (cases q)
  show ?case
  proof (cases "known td q")
    case False
    then have "test_loop ext args td (q # qs) al w = test_loop ext args td qs al w"
      unfolding q by (auto simp: known_def split: option.splits)
    with Cons.prems(2) have "test_loop ext args td qs al w = (Inr al', w')" by simp
    from Cons.IH[OF Cons.prems(1) this] False show ?thesis by simp
  next
    case True
    then obtain u i where k: "rawToInnerIdUsers td u0 = Some u" "rawToInnerIdItems td i0 = Some i"
      unfolding q by (auto simp: known_def)
    from Cons.prems(2) k obtain al1 w1 where
      p: "predict ext al u i r0 (args_indivOutput args) w = (Inr al1, w1)"
      and l: "test_loop ext args td qs al1 w1 = (Inr al', w')"
      unfolding q by (auto split: prod.splits sum.splits)
    from Cons.prems(1) p obtain x where x: "preds al1 = preds al @ [x]"
      unfolding predict_appends_def by blast
    from Cons.IH[OF Cons.prems(1) l] obtain ps where
      "preds al' = preds al1 @ ps" "length ps = length (filter (known td) qs)"
      by blast
    with x True show ?thesis
      by (intro exI[of _ "x # ps"]) simp
  qed
qed

lemma clock_Inr: "clock ext w = (r, w') \<Longrightarrow> \<exists>t. r = Inr t"
  by (auto simp: clock_def on_env_def split: prod.splits)

lemma getRmse_test_run:
  "getRmse_test ext args td rd tt al w = (Inr algo, w1) \<Longrightarrow>
     \<exists>t0 wa al1 wb t1.
       clock ext w = (Inr t0, wa) \<and>
       test_loop ext args td (reader_ratings ext rd) al wa = (Inr al1, wb) \<and>
       clock ext wb = (Inr t1, w1) \<and>
       algo = al1\<lparr>infos := (infos al1)(''trainingTime'' \<mapsto> tt, ''testingTime'' \<mapsto> t1 - t0)\<rparr>"
  by (fastforce simp: getRmse_test_def then_do_Inr_iff ok_def Let_def)

text \<open>
  C8. When \<^verbatim>\<open>getRmse\<close> has tested a fold without an exception, the algorithm object
  is the one that the constructor has made from the fold's training data, as the loop
  over the fold's test ratings has left it, with the keys \<^verbatim>\<open>trainingTime\<close> and
  \<^verbatim>\<open>testingTime\<close> set in its \<^verbatim>\<open>infos\<close>: its \<^verbatim>\<open>preds\<close> are the ones that this loop
  has accumulated. Where \<^verbatim>\<open>predict\<close> appends one record for each call, these are the
  \<^verbatim>\<open>preds\<close> of the new object followed by one record for each test rating whose user
  and item are known to the training data. \<^verbatim>\<open>dumpInfos\<close> is called on this object,
  and after it \<^verbatim>\<open>computeStats\<close> on these \<^verbatim>\<open>preds\<close>.
\<close>

theorem infos_and_preds_after_testing:
  assumes "getRmse_tested ext args RC trainSet testSet w = (Inr algo, w1)"
  shows "infos algo ''trainingTime'' \<noteq> None \<and> infos algo ''testingTime'' \<noteq> None \<and>
         (\<exists>td tt al0 w0 t0 wa al1 wb t1.
            TrainingData ext (RC trainSet) = Inr td \<and>
            getRmse_fit ext args RC trainSet testSet w = (Inr (td, RC testSet, tt, al0), w0) \<and>
            clock ext w0 = (Inr t0, wa) \<and>
            test_loop ext args td (reader_ratings ext (RC testSet)) al0 wa = (Inr al1, wb) \<and>
            clock ext wb = (Inr t1, w1) \<and>
            algo = al1\<lparr>infos := (infos al1)(''trainingTime'' \<mapsto> tt, ''testingTime'' \<mapsto> t1 - t0)\<rparr> \<and>
            preds algo = preds al1 \<and>
            (predict_appends ext \<longrightarrow>
               (\<exists>ps. preds algo = preds al0 @ ps \<and>
                  length ps = length (filter (known td) (reader_ratings ext (RC testSet)))))) \<and>
         getRmse ext args RC trainSet testSet w =
           then_do (on_env (dumpInfos ext algo)) (\<lambda>_. lift_result (computeStats ext (preds algo))) w1"
proof -
  from assms obtain td rd tt al0 w0 where
    f: "getRmse_fit ext args RC trainSet testSet w = (Inr (td, rd, tt, al0), w0)"
    and t: "getRmse_test ext args td rd tt al0 w0 = (Inr algo, w1)"
    by (auto simp: getRmse_tested_def then_do_Inr_iff)
  from getRmse_fit_td[OF f] have rd: "rd = RC testSet" and td: "TrainingData ext (RC trainSet) = Inr td"
    by simp_all
  from getRmse_test_run[OF t] rd obtain t0 wa al1 wb t1 where
    c0: "clock ext w0 = (Inr t0, wa)"
    and l: "test_loop ext args td (reader_ratings ext (RC testSet)) al0 wa = (Inr al1, wb)"
    and c1: "clock ext wb = (Inr t1, w1)"
    and a: "algo = al1\<lparr>infos := (infos al1)(''trainingTime'' \<mapsto> tt, ''testingTime'' \<mapsto> t1 - t0)\<rparr>"
    by blast
  from a have p: "preds algo = preds al1" by simp
  from a have i: "infos algo ''trainingTime'' \<noteq> None" "infos algo ''testingTime'' \<noteq> None"
    by simp_all
  have n: "predict_appends ext \<longrightarrow>
      (\<exists>ps. preds algo = preds al0 @ ps \<and>
         length ps = length (filter (known td) (reader_ratings ext (RC testSet))))"
    using test_loop_preds[OF _ l] p by simp
  from td f[unfolded rd] c0 l c1 a p n
  have e: "\<exists>td tt al0 w0 t0 wa al1 wb t1.
            TrainingData ext (RC trainSet) = Inr td \<and>
            getRmse_fit ext args RC trainSet testSet w = (Inr (td, RC testSet, tt, al0), w0) \<and>
            clock ext w0 = (Inr t0, wa) \<and>
            test_loop ext args td (reader_ratings ext (RC testSet)) al0 wa = (Inr al1, wb) \<and>
            clock ext wb = (Inr t1, w1) \<and>
            algo = al1\<lparr>infos := (infos al1)(''trainingTime'' \<mapsto> tt, ''testingTime'' \<mapsto> t1 - t0)\<rparr> \<and>
            preds algo = preds al1 \<and>
            (predict_appends ext \<longrightarrow>
               (\<exists>ps. preds algo = preds al0 @ ps \<and>
                  length ps = length (filter (known td) (reader_ratings ext (RC testSet)))))"
    by blast
  have g: "getRmse ext args RC trainSet testSet w =
           then_do (on_env (dumpInfos ext algo)) (\<lambda>_. lift_result (computeStats ext (preds algo))) w1"
    using assms by (simp add: getRmse_def then_do_def)
  from i e g show ?thesis by (intro conjI)
qed

lemma demo_getRmse_tested:
  "getRmse_tested demo_ext demo_args (\<lambda>raw. raw) [(''u1'', ''i1'', 5, 0)] [(''u1'', ''i1'', 4, 1)]
     \<lparr>rng = 0, env = 0\<rparr> = (Inr demo_algo_tested, \<lparr>rng = 0, env = 4\<rparr>)"
  by (simp add: getRmse_tested_def getRmse_fit_def getRmse_test_def then_do_def clock_def
      on_env_def ok_def lift_result_def demo_ext_def demo_TrainingData_def id_index_def
      demo_algo_tested_def demo_args_def Let_def)

lemma demo_predict_appends: "predict_appends demo_ext"
  by (auto simp: predict_appends_def demo_ext_def)

lemma demo_getRmse_fit:
  "getRmse_fit demo_ext demo_args (\<lambda>raw. raw) [(''u1'', ''i1'', 5, 0)] [(''u1'', ''i1'', 4, 1)]
     \<lparr>rng = 0, env = 0\<rparr> =
   (Inr (demo_td, [(''u1'', ''i1'', 4, 1)], 1, demo_algo), \<lparr>rng = 0, env = 2\<rparr>)"
  by (simp add: getRmse_fit_def then_do_def clock_def on_env_def ok_def lift_result_def
      demo_ext_def demo_TrainingData_def demo_td_def demo_algo_def demo_args_def Let_def)

lemma demo_known: "filter (known demo_td) (reader_ratings demo_ext [(''u1'', ''i1'', 4, 1)])
    = [(''u1'', ''i1'', 4, 1)]"
  by (simp add: known_def demo_td_def id_index_def demo_ext_def)

theorem infos_and_preds_after_testing_witness:
  "getRmse_tested demo_ext demo_args (\<lambda>raw. raw) [(''u1'', ''i1'', 5, 0)] [(''u1'', ''i1'', 4, 1)]
     \<lparr>rng = 0, env = 0\<rparr> = (Inr demo_algo_tested, \<lparr>rng = 0, env = 4\<rparr>) \<and>
   infos demo_algo_tested ''trainingTime'' \<noteq> None \<and>
   infos demo_algo_tested ''testingTime'' \<noteq> None \<and>
   predict_appends demo_ext \<and>
   preds demo_algo_tested = [(0, 0, 4, 3)] \<and>
   (\<exists>ps. preds demo_algo_tested = preds demo_algo @ ps \<and>
      length ps = length [(''u1'', ''i1'', 4 :: int, 1 :: nat)]) \<and>
   getRmse demo_ext demo_args (\<lambda>raw. raw) [(''u1'', ''i1'', 5, 0)] [(''u1'', ''i1'', 4, 1)]
     \<lparr>rng = 0, env = 0\<rparr> =
   then_do (on_env (dumpInfos demo_ext demo_algo_tested))
     (\<lambda>_. lift_result (computeStats demo_ext (preds demo_algo_tested))) \<lparr>rng = 0, env = 4\<rparr>"
proof -
  note t = infos_and_preds_after_testing[OF demo_getRmse_tested]
  from t have a: "infos demo_algo_tested ''trainingTime'' \<noteq> None" by (rule conjunct1)
  from t have b: "infos demo_algo_tested ''testingTime'' \<noteq> None" by blast
  from t have c: "getRmse demo_ext demo_args (\<lambda>raw. raw) [(''u1'', ''i1'', 5, 0)] [(''u1'', ''i1'', 4, 1)]
     \<lparr>rng = 0, env = 0\<rparr> =
   then_do (on_env (dumpInfos demo_ext demo_algo_tested))
     (\<lambda>_. lift_result (computeStats demo_ext (preds demo_algo_tested))) \<lparr>rng = 0, env = 4\<rparr>"
    by blast
  from t demo_predict_appends obtain td tt al0 w0 ps where
    f: "getRmse_fit demo_ext demo_args (\<lambda>raw. raw) [(''u1'', ''i1'', 5, 0)] [(''u1'', ''i1'', 4, 1)]
          \<lparr>rng = 0, env = 0\<rparr> = (Inr (td, [(''u1'', ''i1'', 4, 1)], tt, al0), w0)"
    and p: "preds demo_algo_tested = preds al0 @ ps"
      "length ps = length (filter (known td) (reader_ratings demo_ext [(''u1'', ''i1'', 4, 1)]))"
    by blast
  from f[unfolded demo_getRmse_fit] have e: "td = demo_td" "al0 = demo_algo"
    by simp_all
  from p have d: "\<exists>ps. preds demo_algo_tested = preds demo_algo @ ps \<and>
      length ps = length [(''u1'', ''i1'', 4 :: int, 1 :: nat)]"
    unfolding e demo_known by blast
  have q: "preds demo_algo_tested = [(0, 0, 4, 3)]" by (simp add: demo_algo_tested_def)
  from demo_getRmse_tested a b demo_predict_appends q d c show ?thesis
    by (intro conjI)
qed


end
